theory Spec2Isabelle
  imports Main "HOL-Library.Multiset"
begin

section \<open>Terminal command dispatcher (client/src/utils/pg/command/command.ts)\<close>

subsection \<open>Data model\<close>

text \<open>
  Strings are lists of characters, a character standing for a code unit below 256, and
  \<open>length\<close> plays the role of the JavaScript \<open>.length\<close> property. A command argument (\<open>Arg\<close>) has a name and the \<open>optional\<close>
  flag; an absent flag is falsy and is modelled by \<open>False\<close>.
\<close>

datatype arg = Arg (arg_name: string) (optional: bool)

text \<open>
  Everything \<open>execute\<close> can throw. The four \<open>Error\<close> objects built by the dispatcher keep
  the data their message is built from; \<open>Thrown\<close> is an exception raised by a callback the
  command supplies (a precondition check or a handler); \<open>TypeError\<close> and \<open>RangeError\<close> are
  the exceptions of the JavaScript runtime.
\<close>

datatype error =
    CommandNotFound string
  | SubcommandDoesNotExist string "string list option"
  | ArgumentCountTooHigh nat
  | ArgumentNotSpecified string
  | Thrown string
  | TypeError
  | RangeError

text \<open>
  The parsed arguments are a JavaScript object used as a dictionary. The map holds its own
  properties: a key is either not there, or bound to a value that is a string (\<open>Some s\<close>)
  or \<open>undefined\<close> (\<open>None\<close>).
\<close>

type_synonym parsed_args = "string \<rightharpoonup> string option"

text \<open>
  A command (\<open>CommandImpl\<close>). \<open>preCheck\<close> is the list \<open>PgCommon.toArray\<close> makes of the
  field (empty when the field is absent), each check either returning (\<open>None\<close>) or throwing
  (\<open>Some msg\<close>); \<open>args\<close>, \<open>run\<close> and \<open>subcommands\<close> are \<open>None\<close> when the field is absent.
  A handler gets the input and the parsed arguments and returns a result or throws.
\<close>

datatype 'r command = Command
  (name: string)
  (description: string)
  (preCheck: "(unit \<Rightarrow> string option) list")
  (args: "arg list option")
  (run: "(string \<Rightarrow> parsed_args \<Rightarrow> string + 'r) option")
  (subcommands: "'r command list option")

text \<open>
  The calls \<open>execute\<close> makes to the outside, in the order it makes them: a custom event
  with its name and payload, a line logged to the terminal, and the call of a handler
  (recorded with the name of the command it belongs to, the input and the parsed arguments).
\<close>

datatype 'r detail = Input string | Result 'r

datatype 'r effect =
    CustomEvent string "'r detail"
  | Log string
  | Invoke string string parsed_args

datatype event_kind = start | finish

fun getEventName :: "string \<Rightarrow> event_kind \<Rightarrow> string" where
  "getEventName nm start = ''ondidrunstart'' @ nm"
| "getEventName nm finish = ''ondidrunfinish'' @ nm"

subsection \<open>formatCmdList\<close>

definition newline :: char where
  "newline = CHR 0x0A"

text \<open>
  The regular expression \<open>/^[a-zA-Z-]+$/\<close>, on character codes: \<open>a\<close> to \<open>z\<close> are 97 to 122,
  \<open>A\<close> to \<open>Z\<close> are 65 to 90 and the hyphen is 45.
\<close>

definition is_letter :: "char \<Rightarrow> bool" where
  "is_letter c \<longleftrightarrow>
     (let n = (of_char c :: nat)
      in (97 \<le> n \<and> n \<le> 122) \<or> (65 \<le> n \<and> n \<le> 90) \<or> n = 45)"

definition is_letters :: "string \<Rightarrow> bool" where
  "is_letters s \<longleftrightarrow> s \<noteq> [] \<and> list_all is_letter s"

text \<open>
  The comparison function given to \<open>sort\<close>. \<open>String.prototype.localeCompare\<close> belongs to
  the runtime and its locale, so it is the parameter \<open>lc\<close>.
\<close>

definition cmdCompare :: "(string \<Rightarrow> string \<Rightarrow> int) \<Rightarrow> 'r command \<Rightarrow> 'r command \<Rightarrow> int" where
  "cmdCompare lc a b = (if \<not> is_letters (name b) then - 1 else lc (name a) (name b))"

text \<open>
  \<open>Array.prototype.sort\<close>. The standard fixes the result when the comparison function is
  consistent; for one that is not, it only promises a permutation and the order is the
  engine's. The model is the sort of V8 (Chrome, Node.js; \<open>third_party/v8/builtins/array-sort.tq\<close>),
  which treats an array of fewer than 64 elements as one run:

  \<^item> \<open>CountAndMakeRun\<close> finds the run the array starts with. The first call of the comparison
    function is \<open>comparefn(a[1], a[0])\<close>; the run is descending when the answer is below 0,
    and every further element is compared with the one before it, \<open>comparefn(current,
    previous)\<close>. A descending run ends at the first answer that is not below 0, an ascending
    one at the first answer below 0. A descending run is reversed.
  \<^item> \<open>BinaryInsertionSort\<close> puts every element after the run into the sorted front, at the
    place a binary search with \<open>comparefn(pivot, front[mid])\<close> finds (to the left of \<open>mid\<close>
    when the answer is below 0, to its right otherwise).

  An array of 64 elements or more is cut into several such runs, which are merged; the
  model sorts it as one run, which gives the same list when the comparison function is
  consistent. \<open>sort\<close> reorders the array of the command in place, which shows in later
  calls only and is left out of the model of one call.
\<close>

fun countRun :: "('a \<Rightarrow> 'a \<Rightarrow> int) \<Rightarrow> bool \<Rightarrow> 'a \<Rightarrow> 'a list \<Rightarrow> 'a list \<times> 'a list" where
  "countRun cmp isDescending previousElement [] = ([], [])"
| "countRun cmp isDescending previousElement (currentElement # more) =
     (let order = cmp currentElement previousElement
      in if (if isDescending then order \<ge> 0 else order < 0) then ([], currentElement # more)
         else (case countRun cmp isDescending currentElement more of
                 (found, rest) \<Rightarrow> (currentElement # found, rest)))"

fun countAndMakeRun :: "('a \<Rightarrow> 'a \<Rightarrow> int) \<Rightarrow> 'a list \<Rightarrow> 'a list \<times> 'a list" where
  "countAndMakeRun cmp (elementHigh # elementLow # more) =
     (let isDescending = cmp elementLow elementHigh < 0
      in case countRun cmp isDescending elementLow more of
           (found, rest) \<Rightarrow>
             (if isDescending then rev (elementHigh # elementLow # found)
              else elementHigh # elementLow # found, rest))"
| "countAndMakeRun cmp xs = (xs, [])"

function binarySearch :: "('a \<Rightarrow> 'a \<Rightarrow> int) \<Rightarrow> 'a \<Rightarrow> 'a list \<Rightarrow> nat \<Rightarrow> nat \<Rightarrow> nat" where
  "binarySearch cmp pivot front left right =
     (if left < right
      then (let mid = left + (right - left) div 2
            in if cmp pivot (front ! mid) < 0 then binarySearch cmp pivot front left mid
               else binarySearch cmp pivot front (mid + 1) right)
      else left)"
  by pat_completeness auto
termination
  by (relation "measure (\<lambda>(cmp, pivot, front, left, right). right - left)") auto

declare binarySearch.simps [simp del]

definition insertPivot :: "('a \<Rightarrow> 'a \<Rightarrow> int) \<Rightarrow> 'a list \<Rightarrow> 'a \<Rightarrow> 'a list" where
  "insertPivot cmp front pivot =
     (let left = binarySearch cmp pivot front 0 (length front)
      in take left front @ pivot # drop left front)"

definition binaryInsertionSort :: "('a \<Rightarrow> 'a \<Rightarrow> int) \<Rightarrow> 'a list \<Rightarrow> 'a list \<Rightarrow> 'a list" where
  "binaryInsertionSort cmp found rest = foldl (insertPivot cmp) found rest"

definition sort_by :: "('a \<Rightarrow> 'a \<Rightarrow> int) \<Rightarrow> 'a list \<Rightarrow> 'a list" where
  "sort_by cmp xs = (case countAndMakeRun cmp xs of (found, rest) \<Rightarrow> binaryInsertionSort cmp found rest)"

text \<open>
  \<open>new Array(25 - cmd.name.length).fill(" ").reduce((acc, v) => acc + v)\<close>: the array
  constructor throws a \<open>RangeError\<close> for a negative length, and \<open>reduce\<close> without an initial
  value throws a \<open>TypeError\<close> on the empty array.
\<close>

definition padding :: "nat \<Rightarrow> error + string" where
  "padding len =
     (if 25 < len then Inl RangeError
      else if len = 25 then Inl TypeError
      else Inr (replicate (25 - len) CHR '' ''))"

fun formatEntries :: "string \<Rightarrow> 'r command list \<Rightarrow> error + string" where
  "formatEntries acc [] = Inr acc"
| "formatEntries acc (cmd # cmds) =
     (case padding (length (name cmd)) of
        Inl e \<Rightarrow> Inl e
      | Inr pad \<Rightarrow>
          formatEntries (acc @ ''    '' @ name cmd @ pad @ description cmd @ [newline]) cmds)"

definition formatCmdList :: "(string \<Rightarrow> string \<Rightarrow> int) \<Rightarrow> 'r command list \<Rightarrow> error + string" where
  "formatCmdList lc list = formatEntries [] (sort_by (cmdCompare lc) list)"

subsection \<open>execute\<close>

text \<open>
  \<open>String.prototype.trim\<close> removes white space and line terminators at both ends; on
  the characters of the model these are the tab, the line feed, the vertical tab, the form
  feed, the carriage return, the space and the no-break space.
\<close>

definition is_space :: "char \<Rightarrow> bool" where
  "is_space c \<longleftrightarrow> (of_char c :: nat) \<in> {9, 10, 11, 12, 13, 32, 160}"

definition trim :: "string \<Rightarrow> string" where
  "trim s = rev (dropWhile is_space (rev (dropWhile is_space s)))"

text \<open>\<open>s.split(" ")\<close>: the pieces between single spaces; never the empty array.\<close>

fun split :: "string \<Rightarrow> string list" where
  "split [] = [[]]"
| "split (c # cs) =
     (if c = CHR '' '' then [] # split cs
      else (case split cs of [] \<Rightarrow> [[c]] | t # ts \<Rightarrow> (c # t) # ts))"

text \<open>\<open>xs.join(sep)\<close>.\<close>

fun join :: "string \<Rightarrow> string list \<Rightarrow> string" where
  "join sep [] = []"
| "join sep [x] = x"
| "join sep (x # y # ys) = x @ sep @ join sep (y # ys)"

text \<open>
  \<open>cmd.subcommands?.find((cmd) => cmd.name === token)\<close> and
  \<open>cmd.subcommands?.some((cmd) => cmd.name === nextToken)\<close>: both are \<open>undefined\<close> (here
  \<open>None\<close> and \<open>False\<close>) when the command has no \<open>subcommands\<close> field.
\<close>

definition findSubcommand :: "'r command \<Rightarrow> string \<Rightarrow> 'r command option" where
  "findSubcommand cmd token =
     (case subcommands cmd of None \<Rightarrow> None | Some subs \<Rightarrow> find (\<lambda>c. name c = token) subs)"

definition isSubcommand :: "'r command \<Rightarrow> string \<Rightarrow> bool" where
  "isSubcommand cmd token =
     (case subcommands cmd of None \<Rightarrow> False | Some subs \<Rightarrow> list_ex (\<lambda>c. name c = token) subs)"

text \<open>
  The block under \<open>if (nextToken)\<close>. \<open>rest\<close> is \<open>tokens.slice(+i + 1)\<close>, so its head is
  \<open>nextToken\<close>; \<open>undefined\<close> and the empty string are falsy. The value is the new \<open>args\<close>.
\<close>

definition takeArgs :: "'r command \<Rightarrow> string list \<Rightarrow> error + string list" where
  "takeArgs cmd rest =
     (case rest of
        [] \<Rightarrow> Inr []
      | nextToken # _ \<Rightarrow>
          if nextToken = [] then Inr []
          else if isSubcommand cmd nextToken then Inr []
          else (case args cmd of
                  None \<Rightarrow> Inl (SubcommandDoesNotExist nextToken
                               (map_option (map name) (subcommands cmd)))
                | Some specs \<Rightarrow>
                    if length specs < length rest then Inl (ArgumentCountTooHigh (length rest))
                    else Inr rest))"

text \<open>\<open>for (const preCheck of preChecks) await preCheck()\<close>: the first check that throws.\<close>

fun runPreChecks :: "(unit \<Rightarrow> string option) list \<Rightarrow> string option" where
  "runPreChecks [] = None"
| "runPreChecks (chk # chks) =
     (case chk () of Some msg \<Rightarrow> Some msg | None \<Rightarrow> runPreChecks chks)"

text \<open>
  The loop that fills \<open>parsedArgs\<close>: \<open>i\<close> is the index of the argument, \<open>inputArg\<close> is
  \<open>args[i]\<close>, which is \<open>undefined\<close> beyond the end, and \<open>!inputArg\<close> holds for \<open>undefined\<close>
  and for the empty string. The assignment \<open>parsedArgs[arg.name] = inputArg\<close> is made for
  every argument that does not throw.

  \<open>parsedArgs\<close> starts as the object literal \<open>{}\<close>, whose prototype is \<open>Object.prototype\<close>.
  An assignment to a key makes the key an own property of the object or gives it its new
  value, but for the key \<open>__proto__\<close>: that one is an accessor of \<open>Object.prototype\<close>, and
  its setter does nothing when the value is a string or \<open>undefined\<close>. No key is made then.
\<close>

definition assign :: "parsed_args \<Rightarrow> string \<Rightarrow> string option \<Rightarrow> parsed_args" where
  "assign obj key v = (if key = ''__proto__'' then obj else obj(key \<mapsto> v))"

definition inputArgAt :: "string list \<Rightarrow> nat \<Rightarrow> string option" where
  "inputArgAt inputs i = (if i < length inputs then Some (inputs ! i) else None)"

fun bindArgs :: "arg list \<Rightarrow> string list \<Rightarrow> nat \<Rightarrow> parsed_args \<Rightarrow> error + parsed_args" where
  "bindArgs [] inputs i parsedArgs = Inr parsedArgs"
| "bindArgs (a # specs) inputs i parsedArgs =
     (let inputArg = inputArgAt inputs i
      in if (inputArg = None \<or> inputArg = Some []) \<and> \<not> optional a
         then Inl (ArgumentNotSpecified (arg_name a))
         else bindArgs specs inputs (Suc i) (assign parsedArgs (arg_name a) inputArg))"

definition parseArgs :: "'r command \<Rightarrow> string list \<Rightarrow> error + parsed_args" where
  "parseArgs cmd inputs =
     (case args cmd of None \<Rightarrow> Inr Map.empty | Some specs \<Rightarrow> bindArgs specs inputs 0 Map.empty)"

text \<open>
  The usage block of a command without \<open>run\<close>. \<open>pre\<close> is \<open>tokens.slice(0, +i)\<close>. The
  argument of \<open>PgTerminal.log\<close> is evaluated first, so nothing is logged when
  \<open>formatCmdList\<close> throws; \<open>cmd.subcommands!\<close> of a command without the field is
  \<open>undefined\<close>, and calling \<open>sort\<close> on it is a \<open>TypeError\<close>.
\<close>

definition usage :: "(string \<Rightarrow> string \<Rightarrow> int) \<Rightarrow> 'r command \<Rightarrow> string list \<Rightarrow> error + string" where
  "usage lc cmd pre =
     (case subcommands cmd of
        None \<Rightarrow> Inl TypeError
      | Some subs \<Rightarrow>
          (case formatCmdList lc subs of
             Inl e \<Rightarrow> Inl e
           | Inr listing \<Rightarrow>
               Inr ([newline] @ description cmd @ [newline, newline] @ ''Usage: ''
                    @ join '' '' (pre @ [name cmd]) @ '' <COMMAND>'' @ [newline, newline]
                    @ ''Commands:'' @ [newline, newline] @ listing)))"

text \<open>
  The end of an iteration that does not \<open>continue\<close>: the usage block and \<open>break\<close> for a
  command without \<open>run\<close> (the function then returns \<open>undefined\<close>, here \<open>None\<close>), or else
  the parsed arguments, the handler, the finish event and the handler's result.
\<close>

definition runCommand :: "(string \<Rightarrow> string \<Rightarrow> int) \<Rightarrow> string \<Rightarrow> string \<Rightarrow> 'r command \<Rightarrow> string list \<Rightarrow>
    string list \<Rightarrow> 'r effect list \<Rightarrow> (error + 'r option) \<times> 'r effect list" where
  "runCommand lc input cmdName cmd pre inputs trace =
     (case run cmd of
        None \<Rightarrow>
          (case usage lc cmd pre of
             Inl e \<Rightarrow> (Inl e, trace)
           | Inr block \<Rightarrow> (Inr None, trace @ [Log block]))
      | Some handler \<Rightarrow>
          (case parseArgs cmd inputs of
             Inl e \<Rightarrow> (Inl e, trace)
           | Inr parsedArgs \<Rightarrow>
               (case handler input parsedArgs of
                  Inl msg \<Rightarrow> (Inl (Thrown msg), trace @ [Invoke (name cmd) input parsedArgs])
                | Inr result \<Rightarrow>
                    (Inr (Some result),
                     trace @ [Invoke (name cmd) input parsedArgs,
                              CustomEvent (getEventName cmdName finish) (Result result)]))))"

text \<open>
  The \<open>for (const i in tokens)\<close> loop. The tokens not yet visited are \<open>token # rest\<close> and
  \<open>pre\<close> are the tokens before them; \<open>cmd\<close> is the current command. \<open>args\<close> is empty at
  the start of every iteration, since an iteration that sets it does not \<open>continue\<close>.
  When the tokens are used up the function returns \<open>undefined\<close>.
\<close>

fun loop :: "(string \<Rightarrow> string \<Rightarrow> int) \<Rightarrow> string \<Rightarrow> string \<Rightarrow> 'r command \<Rightarrow> string list \<Rightarrow>
    string list \<Rightarrow> 'r effect list \<Rightarrow> (error + 'r option) \<times> 'r effect list" where
  "loop lc input cmdName cmd pre [] trace = (Inr None, trace)"
| "loop lc input cmdName cmd pre (token # rest) trace =
     (let cmd' = (case findSubcommand cmd token of Some subCmd \<Rightarrow> subCmd | None \<Rightarrow> cmd)
      in case takeArgs cmd' rest of
           Inl e \<Rightarrow> (Inl e, trace)
         | Inr inputs \<Rightarrow>
             (case runPreChecks (preCheck cmd') of
                Some msg \<Rightarrow> (Inl (Thrown msg), trace)
              | None \<Rightarrow>
                  if rest \<noteq> [] \<and> inputs = []
                  then loop lc input cmdName cmd' (pre @ [token]) rest trace
                  else runCommand lc input cmdName cmd' pre inputs trace))"

text \<open>
  Modelled from the spec: \<open>PgTerminal.process\<close>, \<open>PgTerminal.log\<close> and the helpers of
  \<open>PgCommon\<close> that \<open>execute\<close> calls are not among the sources. By the specification
  \<open>process\<close> is the queue that lets one execution run at a time; for one call it runs the
  callback and returns what the callback returns or throws. \<open>log\<close> prints its argument,
  \<open>entries\<close> and \<open>toArray\<close> are \<open>Object.entries\<close> and the array of one or several checks,
  and \<open>createAndDispatchCustomEvent\<close> dispatches the event with its payload.
\<close>

text \<open>
  \<open>PgCommandManager.execute\<close>. \<open>commands\<close> are the entries of
  \<open>PgCommandManager.commands\<close>, code name first. The result is what the call returns or
  throws, together with the calls it made to the outside.
\<close>

definition execute :: "(string \<Rightarrow> string \<Rightarrow> int) \<Rightarrow> (string \<times> 'r command) list \<Rightarrow> string \<Rightarrow>
    (error + 'r option) \<times> 'r effect list" where
  "execute lc commands input0 =
     (let input = trim input0;
          tokens = split input
      in case tokens of
           [] \<Rightarrow> (Inr None, [])
         | inputCmdName # _ \<Rightarrow>
             if inputCmdName = [] then (Inr None, [])
             else (case find (\<lambda>(cmdName, _). cmdName = inputCmdName) commands of
                     None \<Rightarrow> (Inl (CommandNotFound inputCmdName), [])
                   | Some (cmdName, cmd) \<Rightarrow>
                       loop lc input cmdName cmd [] tokens
                         [CustomEvent (getEventName cmdName start) (Input input)]))"

subsection \<open>Where the walk over the tokens stops\<close>

text \<open>
  An iteration of the loop goes on to the next token (\<open>continue\<close>) when tokens are left,
  no argument was taken and every precondition check of the current command passed.
  \<open>resolve\<close> follows these iterations and returns the state of the iteration that does not
  continue: the command the input resolves to, the tokens before it and the tokens after it.
\<close>

definition descend :: "'r command \<Rightarrow> string \<Rightarrow> 'r command" where
  "descend cmd token = (case findSubcommand cmd token of Some subCmd \<Rightarrow> subCmd | None \<Rightarrow> cmd)"

fun resolve :: "'r command \<Rightarrow> string list \<Rightarrow> string list \<Rightarrow>
    ('r command \<times> string list \<times> string list) option" where
  "resolve cmd pre [] = None"
| "resolve cmd pre (token # rest) =
     (if rest \<noteq> [] \<and> takeArgs (descend cmd token) rest = Inr []
         \<and> runPreChecks (preCheck (descend cmd token)) = None
      then resolve (descend cmd token) (pre @ [token]) rest
      else Some (descend cmd token, pre, rest))"

text \<open>The commands of a command tree: the command itself and those below it.\<close>

fun commands_of :: "'r command \<Rightarrow> 'r command set" where
  "commands_of (Command n d p a r subs) =
     insert (Command n d p a r subs)
       (case subs of None \<Rightarrow> {} | Some cs \<Rightarrow> (\<Union>c\<in>set cs. commands_of c))"

text \<open>A comparison of strings by character codes, to run the dispatcher on examples.\<close>

fun compareCodes :: "string \<Rightarrow> string \<Rightarrow> int" where
  "compareCodes [] [] = 0"
| "compareCodes [] (y # ys) = - 1"
| "compareCodes (x # xs) [] = 1"
| "compareCodes (x # xs) (y # ys) =
     (if (of_char x :: nat) < of_char y then - 1
      else if (of_char y :: nat) < of_char x then 1
      else compareCodes xs ys)"

subsection \<open>Example commands\<close>

text \<open>
  A precondition check that throws and one that returns, a handler that returns its input,
  and small command trees built from them.
\<close>

definition failingCheck :: "unit \<Rightarrow> string option" where
  "failingCheck u = Some ''not allowed''"

definition passingCheck :: "unit \<Rightarrow> string option" where
  "passingCheck u = None"

definition echoHandler :: "string \<Rightarrow> parsed_args \<Rightarrow> string + string" where
  "echoHandler input parsedArgs = Inr input"

definition exBar :: "string command" where
  "exBar = Command ''bar'' ''Bar the target'' [passingCheck] (Some [Arg ''target'' False])
     (Some echoHandler) None"

definition exFoo :: "string command" where
  "exFoo = Command ''foo'' ''Foo commands'' [] None None (Some [exBar])"

definition exFooGuarded :: "string command" where
  "exFooGuarded = Command ''foo'' ''Foo commands'' [failingCheck] None None (Some [exBar])"


definition exShow :: "string command" where
  "exShow = Command ''show'' ''Show something'' [] (Some [Arg ''what'' True]) (Some echoHandler) None"

definition leaf :: "string \<Rightarrow> string \<Rightarrow> string command" where
  "leaf n d = Command n d [] None (Some echoHandler) None"

definition exMixed :: "string command" where
  "exMixed = Command ''foo'' ''Foo commands'' [] None None
     (Some [leaf ''a'' ''Letter'', leaf ''1'' ''Digit''])"

definition exMixedSwapped :: "string command" where
  "exMixedSwapped = Command ''foo'' ''Foo commands'' [] None None
     (Some [leaf ''1'' ''Digit'', leaf ''a'' ''Letter''])"

subsection \<open>Notions used in the statements\<close>


text \<open>The line of one command in the listing, and the text of the usage block before the listing.\<close>

definition entryLine :: "'r command \<Rightarrow> string" where
  "entryLine cmd =
     ''    '' @ name cmd @ replicate (25 - length (name cmd)) CHR '' '' @ description cmd @ [newline]"

definition usageHeader :: "'r command \<Rightarrow> string list \<Rightarrow> string" where
  "usageHeader cmd pre =
     [newline] @ description cmd @ [newline, newline] @ ''Usage: ''
       @ join '' '' (pre @ [name cmd]) @ '' <COMMAND>'' @ [newline, newline]
       @ ''Commands:'' @ [newline, newline]"

section \<open>Theme manager (client/src/utils/pg/theme/theme.ts)\<close>

subsection \<open>JavaScript values\<close>

text \<open>
  A number is a double. The code never computes with one but by \<open>+\<close>; what it does with a
  number is to print it (in a template literal, \<open>${value}\<close>) and to test whether it is
  falsy. So a number is given here by what \<open>Number::toString\<close> of the standard prints it
  from: \<open>NaN\<close>, an infinity with its sign, or the sign with the integers \<open>s\<close> and \<open>n\<close> of
  the shortest decimal form of the number, whose value is \<open>s\<close> times 10 to the power
  \<open>n - k\<close>, \<open>k\<close> being the number of digits of \<open>s\<close> (and \<open>s\<close> has no zero at its end). So \<open>1\<close> is \<open>Finite False 1 1\<close>, \<open>12\<close> is
  \<open>Finite False 12 2\<close>, \<open>0.5\<close> is \<open>Finite False 5 0\<close> and \<open>1e21\<close> is \<open>Finite False 1 22\<close>. Zero
  is \<open>s = 0\<close>, written with \<open>n = 0\<close>; \<open>Finite True 0 0\<close> is \<open>-0\<close>. Every double is one of these
  values.
\<close>

datatype js_number =
    Finite bool nat int
  | Infinite bool
  | NotANumber

text \<open>
  The values a theme or a style object holds: strings, numbers, booleans, objects and
  \<open>undefined\<close>. An object is the list of its own enumerable properties in the order
  \<open>Object.keys\<close> gives them.
\<close>

datatype js_value =
    Str string
  | Num js_number
  | Bool bool
  | Obj "(string \<times> js_value) list"
  | Undefined

text \<open>The decimal digits of a natural number.\<close>

fun digits :: "nat \<Rightarrow> string" where
  "digits n =
     (if n < 10 then [char_of (48 + n)] else digits (n div 10) @ [char_of (48 + n mod 10)])"

text \<open>
  \<open>Number::toString\<close> with radix 10, the string a template literal or a concatenation makes
  of a number: \<open>NaN\<close>; \<open>0\<close> for both zeros; \<open>-\<close> before the string of the opposite of a
  negative number; \<open>Infinity\<close>; and for the digits \<open>s\<close> (\<open>k\<close> of them) and the exponent \<open>n\<close>:
  the digits and \<open>n - k\<close> zeros when \<open>k \<le> n \<le> 21\<close>; the digits with the point after the
  first \<open>n\<close> of them when \<open>0 < n \<le> 21\<close>; \<open>0.\<close>, \<open>-n\<close> zeros and the digits when \<open>-6 < n \<le> 0\<close>;
  and otherwise the exponential form, with the point after the first digit when there are
  several, \<open>e\<close>, the sign of \<open>n - 1\<close> and its digits.
\<close>

definition numberToString :: "js_number \<Rightarrow> string" where
  "numberToString x =
     (case x of
        NotANumber \<Rightarrow> ''NaN''
      | Infinite negative \<Rightarrow> (if negative then ''-'' else []) @ ''Infinity''
      | Finite negative s n \<Rightarrow>
          (if s = 0 then ''0''
           else (if negative then ''-'' else []) @
             (let ds = digits s; k = int (length ds)
              in if k \<le> n \<and> n \<le> 21 then ds @ replicate (nat (n - k)) CHR ''0''
                 else if 0 < n \<and> n \<le> 21 then take (nat n) ds @ ''.'' @ drop (nat n) ds
                 else if - 6 < n \<and> n \<le> 0 then ''0.'' @ replicate (nat (- n)) CHR ''0'' @ ds
                 else (let e = n - 1;
                           exponent = (if e < 0 then ''-'' else ''+'') @ digits (nat \<bar>e\<bar>)
                       in if k = 1 then ds @ ''e'' @ exponent
                          else take 1 ds @ ''.'' @ drop 1 ds @ ''e'' @ exponent))))"

subsection \<open>convertToCSS\<close>

text \<open>
  Modelled from the spec: \<open>PgCommon.toKebabFromCamel\<close> is not among the sources. The
  specification says that a key is converted from camel case to kebab case: every upper
  case letter is replaced by a hyphen and the lower case letter. \<open>convertToCSS\<close> below
  does not depend on this model: it takes the conversion as the parameter \<open>kebab\<close>.
\<close>

definition isUpper :: "char \<Rightarrow> bool" where
  "isUpper c \<longleftrightarrow> 65 \<le> (of_char c :: nat) \<and> (of_char c :: nat) \<le> 90"

definition toLower :: "char \<Rightarrow> char" where
  "toLower c = (if isUpper c then char_of ((of_char c :: nat) + 32) else c)"

fun toKebabFromCamel :: "string \<Rightarrow> string" where
  "toKebabFromCamel [] = []"
| "toKebabFromCamel (c # cs) =
     (if isUpper c then CHR ''-'' # toLower c # toKebabFromCamel cs
      else c # toKebabFromCamel cs)"

text \<open>The two groups of \<open>case\<close> labels of the \<open>switch\<close> that return at once.\<close>

definition pseudoClassKey :: "string \<Rightarrow> bool" where
  "pseudoClassKey key \<longleftrightarrow> key \<in> {''hover'', ''active'', ''focus'', ''focusWithin''}"

definition pseudoElementKey :: "string \<Rightarrow> bool" where
  "pseudoElementKey key \<longleftrightarrow> key \<in> {''before'', ''after''}"

text \<open>
  The end of the callback: \<open>prop:value;\<close> is added when \<open>typeof value\<close> is \<open>string\<close> or
  \<open>number\<close>, and nothing otherwise.
\<close>

definition cssDeclaration :: "string \<Rightarrow> js_value \<Rightarrow> string" where
  "cssDeclaration prop v =
     (case v of
        Str s \<Rightarrow> prop @ '':'' @ s @ '';''
      | Num n \<Rightarrow> prop @ '':'' @ numberToString n @ '';''
      | _ \<Rightarrow> [])"

text \<open>
  \<open>convertToCSS\<close> is \<open>Object.keys(component).reduce(..., "")\<close>; \<open>reduceKeys\<close> is the
  \<open>reduce\<close>, with the accumulator \<open>acc\<close>. The argument is whatever value stands there
  at run time: \<open>Object.keys\<close> throws a \<open>TypeError\<close> on \<open>undefined\<close>, returns no key for a
  number or a boolean, and returns the indices of a string, whose values are its
  characters (one-character strings, which the callback adds as declarations).
\<close>

fun convertToCSS :: "(string \<Rightarrow> string) \<Rightarrow> js_value \<Rightarrow> error + string"
  and reduceKeys :: "(string \<Rightarrow> string) \<Rightarrow> string \<Rightarrow> (string \<times> js_value) list \<Rightarrow> error + string" where
  "convertToCSS kebab (Obj entries) = reduceKeys kebab [] entries"
| "convertToCSS kebab (Str s) =
     Inr (concat (map (\<lambda>(i, c). cssDeclaration (kebab (digits i)) (Str [c])) (enumerate 0 s)))"
| "convertToCSS kebab (Num n) = Inr []"
| "convertToCSS kebab (Bool b) = Inr []"
| "convertToCSS kebab Undefined = Inl TypeError"
| "reduceKeys kebab acc [] = Inr acc"
| "reduceKeys kebab acc ((key, v) # rest) =
     (if pseudoClassKey key then
        (case convertToCSS kebab v of
           Inl e \<Rightarrow> Inl e
         | Inr css \<Rightarrow> reduceKeys kebab (acc @ ''&:'' @ kebab key @ ''{'' @ css @ ''}'') rest)
      else if pseudoElementKey key then
        (case convertToCSS kebab v of
           Inl e \<Rightarrow> Inl e
         | Inr css \<Rightarrow> reduceKeys kebab (acc @ ''&::'' @ kebab key @ ''{'' @ css @ ''}'') rest)
      else
        reduceKeys kebab
          (acc @ cssDeclaration (if key = ''bg'' then ''background'' else kebab key) v) rest)"

text \<open>
  The rules as the specification words them, for comparison with the code: the text of
  every key in turn, \<open>bg\<close> first among the cases.
\<close>

fun cssRules :: "(string \<Rightarrow> string) \<Rightarrow> (string \<times> js_value) list \<Rightarrow> string" where
  "cssRules kebab [] = []"
| "cssRules kebab ((key, v) # rest) =
     (if key = ''bg'' then
        (case v of Str s \<Rightarrow> ''background:'' @ s @ '';''
                 | Num n \<Rightarrow> ''background:'' @ numberToString n @ '';''
                 | _ \<Rightarrow> [])
      else if pseudoClassKey key then
        ''&:'' @ kebab key @ ''{'' @ (case v of Obj nested \<Rightarrow> cssRules kebab nested | _ \<Rightarrow> []) @ ''}''
      else if pseudoElementKey key then
        ''&::'' @ kebab key @ ''{'' @ (case v of Obj nested \<Rightarrow> cssRules kebab nested | _ \<Rightarrow> []) @ ''}''
      else
        (case v of Str s \<Rightarrow> kebab key @ '':'' @ s @ '';''
                 | Num n \<Rightarrow> kebab key @ '':'' @ numberToString n @ '';''
                 | _ \<Rightarrow> []))
     @ cssRules kebab rest"

text \<open>
  A style-property bag (\<open>DefaultComponent\<close>): the value under each of the six pseudo keys
  is again a bag.
\<close>

fun styleBag :: "(string \<times> js_value) list \<Rightarrow> bool" where
  "styleBag [] = True"
| "styleBag ((key, v) # rest) =
     ((if pseudoClassKey key \<or> pseudoElementKey key
       then (case v of Obj nested \<Rightarrow> styleBag nested | _ \<Rightarrow> False) else True)
      \<and> styleBag rest)"

subsection \<open>set: the theme name and the font family\<close>

text \<open>
  An importable theme has a name and a loader, modelled by what awaiting
  \<open>importTheme()\<close> and reading \<open>.default\<close> gives: the theme, or the exception thrown.
  A font has a family and its sizes. The parameters of \<open>set\<close> are both optional.
\<close>

record importable_theme =
  theme_name :: string
  importTheme :: "error + js_value"

record pg_font =
  family :: string
  sizes :: js_value

record set_params =
  themeName :: "string option"
  fontFamily :: "string option"

definition THEME_KEY :: string where
  "THEME_KEY = ''theme''"

definition FONT_KEY :: string where
  "FONT_KEY = ''font''"

text \<open>
  \<open>params.themeName ??= localStorage.getItem(this._THEME_KEY) ?? this._themes[0].name\<close>,
  and the same for the font. \<open>getItem\<close> returns \<open>null\<close> for a key that is not stored;
  the right-hand side of \<open>??\<close> is evaluated only then, and reading a property of the first
  element of an empty array throws a \<open>TypeError\<close>.
\<close>

definition resolveThemeName ::
    "importable_theme list \<Rightarrow> (string \<rightharpoonup> string) \<Rightarrow> set_params \<Rightarrow> error + string" where
  "resolveThemeName themes localStorage params =
     (case themeName params of
        Some n \<Rightarrow> Inr n
      | None \<Rightarrow>
          (case localStorage THEME_KEY of
             Some stored \<Rightarrow> Inr stored
           | None \<Rightarrow> (case themes of [] \<Rightarrow> Inl TypeError | t # _ \<Rightarrow> Inr (theme_name t))))"

definition resolveFontFamily ::
    "pg_font list \<Rightarrow> (string \<rightharpoonup> string) \<Rightarrow> set_params \<Rightarrow> error + string" where
  "resolveFontFamily fonts localStorage params =
     (case fontFamily params of
        Some f \<Rightarrow> Inr f
      | None \<Rightarrow>
          (case localStorage FONT_KEY of
             Some stored \<Rightarrow> Inr stored
           | None \<Rightarrow> (case fonts of [] \<Rightarrow> Inl TypeError | f # _ \<Rightarrow> Inr (family f))))"

subsection \<open>The statements of the default filler\<close>

text \<open>
  The methods that fill the defaults are sequences of statements of one form,
  \<open>this._theme.a.b ??= e\<close>, and one test, \<open>if (!this._theme.scrollbar)\<close>. They are
  modelled as data: an expression \<open>e\<close> is a literal, one of the constants imported from
  \<open>./default\<close> (with the properties read from it), the font \<open>this._font\<close>, a chain of
  properties of \<open>this._theme\<close> (\<open>Ref\<close>; the non-null assertions \<open>!\<close> and the casts of the
  source are for the type checker only), a chain whose last links are optional
  (\<open>OptRef\<close>, for \<open>this._theme.components?.input?.bg\<close>), a sum \<open>a + b\<close>, a template literal
  (the list of its texts and its holes) or a choice between two expressions.
  The constants of \<open>./default\<close> are not among the sources: their values are a
  parameter of the evaluation, and so is the sum of two numbers. Both make the
  environment \<open>env\<close>.
\<close>

datatype const_name =
    DEFAULT_BORDER_RADIUS
  | DEFAULT_BOX_SHADOW
  | DEFAULT_FONT_OTHER
  | DEFAULT_SCROLLBAR
  | DEFAULT_TRANSITION
  | DEFAULT_TRANSPARENCY

record environment =
  constants :: "const_name \<Rightarrow> js_value"
  addNumbers :: "js_number \<Rightarrow> js_number \<Rightarrow> js_number"

datatype expr =
    Lit js_value
  | Const const_name "string list"
  | FontRef
  | Ref "string list"
  | OptRef "string list" "string list"
  | Plus expr expr
  | Template "expr list"
  | Cond expr expr expr

text \<open>
  \<open>Default path e\<close> is \<open>this._theme.path ??= e\<close>. \<open>IfFalsy path e\<close> is
  \<open>if (!this._theme.path) this._theme.path = e\<close>; the body of \<open>_scrollbar\<close>, whose two
  branches assign to the same field, is this statement with the choice \<open>Cond\<close> as \<open>e\<close>.
\<close>

datatype stmt =
    Default "string list" expr
  | IfFalsy "string list" expr

text \<open>
  Reading a property: of an object, the value of the key or \<open>undefined\<close>; of \<open>undefined\<close>,
  a \<open>TypeError\<close>; of a string, a number or a boolean, \<open>undefined\<close>. The keys read here
  are no properties of the wrapper objects, but for \<open>small\<close>, a method of every string,
  which the filler reads from the \<open>size\<close> of a font only, an object by its type. Reading
  a chain stops at the first error; an optional link gives \<open>undefined\<close> when the value
  before it is \<open>undefined\<close>.
\<close>

fun getProp :: "js_value \<Rightarrow> string \<Rightarrow> error + js_value" where
  "getProp (Obj entries) key = (case map_of entries key of Some v \<Rightarrow> Inr v | None \<Rightarrow> Inr Undefined)"
| "getProp Undefined key = Inl TypeError"
| "getProp v key = Inr Undefined"

fun getPath :: "js_value \<Rightarrow> string list \<Rightarrow> error + js_value" where
  "getPath v [] = Inr v"
| "getPath v (key # path) =
     (case getProp v key of Inl e \<Rightarrow> Inl e | Inr child \<Rightarrow> getPath child path)"

fun getOptional :: "js_value \<Rightarrow> string list \<Rightarrow> js_value" where
  "getOptional v [] = v"
| "getOptional v (key # path) =
     (if v = Undefined then Undefined
      else (case getProp v key of Inl e \<Rightarrow> Undefined | Inr child \<Rightarrow> getOptional child path))"

text \<open>
  Writing a property: a key of an object keeps its place and a new key comes last; the code
  is a module, hence strict, and writing a property of a primitive value or of \<open>undefined\<close>
  is a \<open>TypeError\<close>. Objects are values here, so \<open>setPath\<close> rebuilds the objects on the
  way to the field written. The filler never writes below a field it has set from the font
  or from a constant, so that sharing these objects, as the code does, cannot be observed.
\<close>

fun setKey :: "string \<Rightarrow> js_value \<Rightarrow> (string \<times> js_value) list \<Rightarrow> (string \<times> js_value) list" where
  "setKey key x [] = [(key, x)]"
| "setKey key x ((k, v) # entries) =
     (if k = key then (k, x) # entries else (k, v) # setKey key x entries)"

fun setProp :: "js_value \<Rightarrow> string \<Rightarrow> js_value \<Rightarrow> error + js_value" where
  "setProp (Obj entries) key x = Inr (Obj (setKey key x entries))"
| "setProp v key x = Inl TypeError"

fun setPath :: "js_value \<Rightarrow> string list \<Rightarrow> js_value \<Rightarrow> error + js_value" where
  "setPath v [] x = Inr x"
| "setPath v [key] x = setProp v key x"
| "setPath v (key # path) x =
     (case getProp v key of
        Inl e \<Rightarrow> Inl e
      | Inr child \<Rightarrow>
          (case setPath child path x of
             Inl e \<Rightarrow> Inl e
           | Inr child' \<Rightarrow> setProp v key child'))"

text \<open>
  The string a template literal or a sum makes of a value, the sum itself (a
  concatenation when one side is a string or an object, else the sum of the numbers the
  two sides convert to: \<open>true\<close> to 1, \<open>false\<close> to 0 and \<open>undefined\<close> to \<open>NaN\<close>), and the truth
  value of a value. The sum of two doubles is the arithmetic of the engine: it is the
  parameter \<open>add\<close>.
\<close>

fun toString :: "js_value \<Rightarrow> string" where
  "toString (Str s) = s"
| "toString (Num n) = numberToString n"
| "toString (Bool b) = (if b then ''true'' else ''false'')"
| "toString (Obj entries) = ''[object Object]''"
| "toString Undefined = ''undefined''"

fun concatenates :: "js_value \<Rightarrow> bool" where
  "concatenates (Str s) = True"
| "concatenates (Obj entries) = True"
| "concatenates v = False"

fun toNumber :: "js_value \<Rightarrow> js_number" where
  "toNumber (Num n) = n"
| "toNumber (Bool b) = (if b then Finite False 1 1 else Finite False 0 0)"
| "toNumber v = NotANumber"

definition jsPlus :: "(js_number \<Rightarrow> js_number \<Rightarrow> js_number) \<Rightarrow> js_value \<Rightarrow> js_value \<Rightarrow> js_value" where
  "jsPlus add a b =
     (if concatenates a \<or> concatenates b then Str (toString a @ toString b)
      else Num (add (toNumber a) (toNumber b)))"

fun truthy :: "js_value \<Rightarrow> bool" where
  "truthy (Str s) = (s \<noteq> [])"
| "truthy (Num n) = (case n of Finite negative s e \<Rightarrow> s \<noteq> 0 | Infinite negative \<Rightarrow> True | NotANumber \<Rightarrow> False)"
| "truthy (Bool b) = b"
| "truthy (Obj entries) = True"
| "truthy Undefined = False"

text \<open>
  The value of an expression in the theme as it is when the statement runs, and the text
  of a template literal.
\<close>

fun evaluate :: "environment \<Rightarrow> js_value \<Rightarrow> js_value \<Rightarrow> expr \<Rightarrow> error + js_value"
  and evalAll :: "environment \<Rightarrow> js_value \<Rightarrow> js_value \<Rightarrow> expr list \<Rightarrow> error + string" where
  "evaluate env font theme (Lit v) = Inr v"
| "evaluate env font theme (Const c path) = getPath (constants env c) path"
| "evaluate env font theme FontRef = Inr font"
| "evaluate env font theme (Ref path) = getPath theme path"
| "evaluate env font theme (OptRef path links) =
     (case getPath theme path of Inl e \<Rightarrow> Inl e | Inr v \<Rightarrow> Inr (getOptional v links))"
| "evaluate env font theme (Plus a b) =
     (case evaluate env font theme a of
        Inl e \<Rightarrow> Inl e
      | Inr x \<Rightarrow> (case evaluate env font theme b of Inl e \<Rightarrow> Inl e | Inr y \<Rightarrow> Inr (jsPlus (addNumbers env) x y)))"
| "evaluate env font theme (Template parts) =
     (case evalAll env font theme parts of Inl e \<Rightarrow> Inl e | Inr s \<Rightarrow> Inr (Str s))"
| "evaluate env font theme (Cond c a b) =
     (case evaluate env font theme c of
        Inl e \<Rightarrow> Inl e
      | Inr x \<Rightarrow> if truthy x then evaluate env font theme a else evaluate env font theme b)"
| "evalAll env font theme [] = Inr []"
| "evalAll env font theme (part # parts) =
     (case evaluate env font theme part of
        Inl e \<Rightarrow> Inl e
      | Inr x \<Rightarrow>
          (case evalAll env font theme parts of Inl e \<Rightarrow> Inl e | Inr s \<Rightarrow> Inr (toString x @ s)))"

text \<open>
  A statement reads its field first (a \<open>TypeError\<close> when an object on the way is
  \<open>undefined\<close>), leaves the theme alone when the field is set (not \<open>undefined\<close>, respectively
  truthy), and otherwise evaluates the expression and writes its value.
\<close>

fun exec :: "environment \<Rightarrow> js_value \<Rightarrow> stmt \<Rightarrow> js_value \<Rightarrow> error + js_value" where
  "exec env font (Default path e) theme =
     (case getPath theme path of
        Inl err \<Rightarrow> Inl err
      | Inr current \<Rightarrow>
          if current \<noteq> Undefined then Inr theme
          else (case evaluate env font theme e of
                  Inl err \<Rightarrow> Inl err
                | Inr x \<Rightarrow> setPath theme path x))"
| "exec env font (IfFalsy path e) theme =
     (case getPath theme path of
        Inl err \<Rightarrow> Inl err
      | Inr current \<Rightarrow>
          if truthy current then Inr theme
          else (case evaluate env font theme e of
                  Inl err \<Rightarrow> Inl err
                | Inr x \<Rightarrow> setPath theme path x))"

fun execAll :: "environment \<Rightarrow> js_value \<Rightarrow> stmt list \<Rightarrow> js_value \<Rightarrow> error + js_value" where
  "execAll env font [] theme = Inr theme"
| "execAll env font (s # ss) theme =
     (case exec env font s theme of Inl err \<Rightarrow> Inl err | Inr theme' \<Rightarrow> execAll env font ss theme')"

text \<open>
  The methods of \<open>PgThemeManager\<close> that set the defaults, statement by statement:
  \<open>theme_fonts\<close> is \<open>_theme_fonts\<close>, and \<open>theme_button\<close> is \<open>_button\<close>, and so on for the other
  methods. \<open>setDefaults\<close> is the chain of calls in \<open>set\<close>, in its order.
\<close>

definition theme_fonts :: "stmt list" where
  "theme_fonts =
    [Default [''font'']
       (Lit (Obj [])),
     Default [''font'', ''code'']
       (FontRef),
     Default [''font'', ''other'']
       (Const DEFAULT_FONT_OTHER [])]"

definition theme_transparency :: "stmt list" where
  "theme_transparency =
    [Default [''transparency'']
       (Const DEFAULT_TRANSPARENCY [])]"

definition theme_borderRadius :: "stmt list" where
  "theme_borderRadius =
    [Default [''borderRadius'']
       (Const DEFAULT_BORDER_RADIUS [])]"

definition theme_boxShadow :: "stmt list" where
  "theme_boxShadow =
    [Default [''boxShadow'']
       (Const DEFAULT_BOX_SHADOW [])]"

definition theme_scrollbar :: "stmt list" where
  "theme_scrollbar =
    [IfFalsy [''scrollbar'']
       (Cond (Ref [''isDark'']) (Const DEFAULT_SCROLLBAR [''dark''])
          (Const DEFAULT_SCROLLBAR [''light'']))]"

definition theme_transition :: "stmt list" where
  "theme_transition =
    [Default [''transition'']
       (Const DEFAULT_TRANSITION [])]"

definition theme_stateColors :: "stmt list" where
  "theme_stateColors =
    [Default [''colors'', ''state'', ''disabled'', ''bg'']
       (Plus (Ref [''colors'', ''state'', ''disabled'', ''color'']) (Ref [''transparency'', ''low''])),
     Default [''colors'', ''state'', ''error'', ''bg'']
       (Plus (Ref [''colors'', ''state'', ''error'', ''color'']) (Ref [''transparency'', ''low''])),
     Default [''colors'', ''state'', ''hover'', ''bg'']
       (Plus (Ref [''colors'', ''state'', ''hover'', ''color'']) (Ref [''transparency'', ''low''])),
     Default [''colors'', ''state'', ''info'', ''bg'']
       (Plus (Ref [''colors'', ''state'', ''info'', ''color'']) (Ref [''transparency'', ''low''])),
     Default [''colors'', ''state'', ''success'', ''bg'']
       (Plus (Ref [''colors'', ''state'', ''success'', ''color'']) (Ref [''transparency'', ''low''])),
     Default [''colors'', ''state'', ''warning'', ''bg'']
       (Plus (Ref [''colors'', ''state'', ''warning'', ''color'']) (Ref [''transparency'', ''low'']))]"

definition theme_components :: "stmt list" where
  "theme_components =
    [Default [''components'']
       (Lit (Obj []))]"

definition theme_skeleton :: "stmt list" where
  "theme_skeleton =
    [Default [''components'', ''skeleton'']
       (Lit (Obj [])),
     Default [''components'', ''skeleton'', ''bg'']
       (Lit (Str ''#44475A'')),
     Default [''components'', ''skeleton'', ''highlightColor'']
       (Lit (Str ''#343746'')),
     Default [''components'', ''skeleton'', ''borderRadius'']
       (Ref [''borderRadius''])]"

definition theme_button :: "stmt list" where
  "theme_button =
    [Default [''components'', ''button'']
       (Lit (Obj [])),
     Default [''components'', ''button'', ''default'']
       (Lit (Obj [])),
     Default [''components'', ''button'', ''default'', ''bg'']
       (Lit (Str ''transparent'')),
     Default [''components'', ''button'', ''default'', ''color'']
       (Lit (Str ''inherit'')),
     Default [''components'', ''button'', ''default'', ''borderColor'']
       (Lit (Str ''transparent'')),
     Default [''components'', ''button'', ''default'', ''borderRadius'']
       (Ref [''borderRadius'']),
     Default [''components'', ''button'', ''default'', ''fontSize'']
       (Ref [''font'', ''code'', ''size'', ''medium'']),
     Default [''components'', ''button'', ''default'', ''fontWeight'']
       (Lit (Str ''normal'')),
     Default [''components'', ''button'', ''default'', ''hover'']
       (Lit (Obj []))]"

definition theme_menu :: "stmt list" where
  "theme_menu =
    [Default [''components'', ''menu'']
       (Lit (Obj [])),
     Default [''components'', ''menu'', ''default'']
       (Lit (Obj [])),
     Default [''components'', ''menu'', ''default'', ''bg'']
       (Ref [''colors'', ''default'', ''bgPrimary'']),
     Default [''components'', ''menu'', ''default'', ''borderRadius'']
       (Ref [''borderRadius'']),
     Default [''components'', ''menu'', ''default'', ''padding'']
       (Lit (Str ''0.25rem 0'')),
     Default [''components'', ''menu'', ''default'', ''boxShadow'']
       (Ref [''boxShadow''])]"

definition theme_input :: "stmt list" where
  "theme_input =
    [Default [''components'', ''input'']
       (Lit (Obj [])),
     Default [''components'', ''input'', ''bg'']
       (Ref [''colors'', ''default'', ''bgPrimary'']),
     Default [''components'', ''input'', ''color'']
       (Ref [''colors'', ''default'', ''textPrimary'']),
     Default [''components'', ''input'', ''borderColor'']
       (Ref [''colors'', ''default'', ''borderColor'']),
     Default [''components'', ''input'', ''borderRadius'']
       (Ref [''borderRadius'']),
     Default [''components'', ''input'', ''padding'']
       (Lit (Str ''0.25rem 0.5rem'')),
     Default [''components'', ''input'', ''boxShadow'']
       (Lit (Str ''none'')),
     Default [''components'', ''input'', ''fontWeight'']
       (Lit (Str ''normal'')),
     Default [''components'', ''input'', ''fontSize'']
       (Ref [''font'', ''code'', ''size'', ''medium'']),
     Default [''components'', ''input'', ''focus'']
       (Lit (Obj [])),
     Default [''components'', ''input'', ''focus'', ''outline'']
       (Template [Lit (Str ''1px solid ''), Plus (Ref [''colors'', ''default'', ''primary'']) (Ref [''transparency'', ''medium''])]),
     Default [''components'', ''input'', ''focusWithin'']
       (Lit (Obj [])),
     Default [''components'', ''input'', ''focusWithin'', ''outline'']
       (Template [Lit (Str ''1px solid ''), Plus (Ref [''colors'', ''default'', ''primary'']) (Ref [''transparency'', ''medium''])])]"

definition theme_select :: "stmt list" where
  "theme_select =
    [Default [''components'', ''select'']
       (Lit (Obj [])),
     Default [''components'', ''select'', ''default'']
       (Lit (Obj [])),
     Default [''components'', ''select'', ''default'', ''fontSize'']
       (Ref [''font'', ''code'', ''size'', ''small'']),
     Default [''components'', ''select'', ''control'']
       (Lit (Obj [])),
     Default [''components'', ''select'', ''control'', ''bg'']
       (Ref [''components'', ''input'', ''bg'']),
     Default [''components'', ''select'', ''control'', ''borderColor'']
       (Ref [''colors'', ''default'', ''borderColor'']),
     Default [''components'', ''select'', ''control'', ''borderRadius'']
       (Ref [''borderRadius'']),
     Default [''components'', ''select'', ''control'', ''minHeight'']
       (Lit (Str ''fit-content'')),
     Default [''components'', ''select'', ''control'', ''hover'']
       (Lit (Obj [])),
     Default [''components'', ''select'', ''control'', ''hover'', ''borderColor'']
       (Ref [''colors'', ''state'', ''hover'', ''color'']),
     Default [''components'', ''select'', ''control'', ''hover'', ''cursor'']
       (Lit (Str ''pointer'')),
     Default [''components'', ''select'', ''control'', ''focusWithin'']
       (Lit (Obj [])),
     Default [''components'', ''select'', ''control'', ''focusWithin'', ''boxShadow'']
       (Template [Lit (Str ''0 0 0 1px ''), Plus (Ref [''colors'', ''default'', ''primary'']) (Ref [''transparency'', ''high''])]),
     Default [''components'', ''select'', ''menu'']
       (Lit (Obj [])),
     Default [''components'', ''select'', ''menu'', ''bg'']
       (Ref [''components'', ''input'', ''bg'']),
     Default [''components'', ''select'', ''menu'', ''color'']
       (Ref [''components'', ''input'', ''color'']),
     Default [''components'', ''select'', ''menu'', ''borderRadius'']
       (Ref [''components'', ''input'', ''borderRadius'']),
     Default [''components'', ''select'', ''option'']
       (Lit (Obj [])),
     Default [''components'', ''select'', ''option'', ''bg'']
       (Ref [''components'', ''input'', ''bg'']),
     Default [''components'', ''select'', ''option'', ''color'']
       (Ref [''colors'', ''default'', ''textSecondary'']),
     Default [''components'', ''select'', ''option'', ''cursor'']
       (Lit (Str ''pointer'')),
     Default [''components'', ''select'', ''option'', ''before'']
       (Lit (Obj [])),
     Default [''components'', ''select'', ''option'', ''before'', ''color'']
       (Ref [''colors'', ''default'', ''primary'']),
     Default [''components'', ''select'', ''option'', ''focus'']
       (Lit (Obj [])),
     Default [''components'', ''select'', ''option'', ''focus'', ''bg'']
       (Ref [''colors'', ''state'', ''hover'', ''bg'']),
     Default [''components'', ''select'', ''option'', ''focus'', ''color'']
       (Ref [''colors'', ''default'', ''primary'']),
     Default [''components'', ''select'', ''option'', ''active'']
       (Lit (Obj [])),
     Default [''components'', ''select'', ''option'', ''active'', ''bg'']
       (Ref [''colors'', ''state'', ''hover'', ''bg'']),
     Default [''components'', ''select'', ''singleValue'']
       (Lit (Obj [])),
     Default [''components'', ''select'', ''singleValue'', ''bg'']
       (OptRef [''components''] [''input'', ''bg'']),
     Default [''components'', ''select'', ''singleValue'', ''color'']
       (OptRef [''components''] [''input'', ''color'']),
     Default [''components'', ''select'', ''input'']
       (Lit (Obj [])),
     Default [''components'', ''select'', ''input'', ''color'']
       (OptRef [''components''] [''input'', ''color'']),
     Default [''components'', ''select'', ''groupHeading'']
       (Lit (Obj [])),
     Default [''components'', ''select'', ''groupHeading'', ''color'']
       (Ref [''colors'', ''default'', ''textSecondary'']),
     Default [''components'', ''select'', ''dropdownIndicator'']
       (Lit (Obj [])),
     Default [''components'', ''select'', ''dropdownIndicator'', ''padding'']
       (Lit (Str ''0.25rem'')),
     Default [''components'', ''select'', ''indicatorSeparator'']
       (Lit (Obj [])),
     Default [''components'', ''select'', ''indicatorSeparator'', ''bg'']
       (Ref [''colors'', ''default'', ''textSecondary''])]"

definition theme_toast :: "stmt list" where
  "theme_toast =
    [Default [''components'', ''toast'']
       (Lit (Obj [])),
     Default [''components'', ''toast'', ''default'']
       (Lit (Obj [])),
     Default [''components'', ''toast'', ''default'', ''bg'']
       (Ref [''colors'', ''default'', ''bgPrimary'']),
     Default [''components'', ''toast'', ''default'', ''color'']
       (Ref [''colors'', ''default'', ''textPrimary'']),
     Default [''components'', ''toast'', ''default'', ''borderRadius'']
       (Ref [''borderRadius'']),
     Default [''components'', ''toast'', ''default'', ''fontFamily'']
       (Ref [''font'', ''code'', ''family'']),
     Default [''components'', ''toast'', ''default'', ''fontSize'']
       (Ref [''font'', ''code'', ''size'', ''medium'']),
     Default [''components'', ''toast'', ''default'', ''cursor'']
       (Lit (Str ''default'')),
     Default [''components'', ''toast'', ''progress'']
       (Lit (Obj [])),
     Default [''components'', ''toast'', ''progress'', ''bg'']
       (Ref [''colors'', ''default'', ''primary'']),
     Default [''components'', ''toast'', ''closeButton'']
       (Lit (Obj [])),
     Default [''components'', ''toast'', ''closeButton'', ''color'']
       (Ref [''colors'', ''default'', ''textSecondary''])]"

definition theme_tooltip :: "stmt list" where
  "theme_tooltip =
    [Default [''components'', ''tooltip'']
       (Lit (Obj [])),
     Default [''components'', ''tooltip'', ''bg'']
       (Ref [''colors'', ''default'', ''bgPrimary'']),
     Default [''components'', ''tooltip'', ''color'']
       (Ref [''colors'', ''default'', ''textPrimary'']),
     Default [''components'', ''tooltip'', ''bgSecondary'']
       (Ref [''colors'', ''default'', ''bgSecondary'']),
     Default [''components'', ''tooltip'', ''borderRadius'']
       (Ref [''borderRadius'']),
     Default [''components'', ''tooltip'', ''boxShadow'']
       (Ref [''boxShadow'']),
     Default [''components'', ''tooltip'', ''fontSize'']
       (Ref [''font'', ''code'', ''size'', ''small''])]"

definition theme_markdown :: "stmt list" where
  "theme_markdown =
    [Default [''components'', ''markdown'']
       (Lit (Obj [])),
     Default [''components'', ''markdown'', ''default'']
       (Lit (Obj [])),
     Default [''components'', ''markdown'', ''default'', ''bg'']
       (Lit (Str ''inherit'')),
     Default [''components'', ''markdown'', ''default'', ''color'']
       (Ref [''colors'', ''default'', ''textPrimary'']),
     Default [''components'', ''markdown'', ''default'', ''fontFamily'']
       (Ref [''font'', ''other'', ''family'']),
     Default [''components'', ''markdown'', ''default'', ''fontSize'']
       (Ref [''font'', ''other'', ''size'', ''medium'']),
     Default [''components'', ''markdown'', ''code'']
       (Lit (Obj [])),
     Default [''components'', ''markdown'', ''code'', ''bg'']
       (Ref [''colors'', ''default'', ''bgSecondary'']),
     Default [''components'', ''markdown'', ''code'', ''color'']
       (Ref [''colors'', ''default'', ''textPrimary'']),
     Default [''components'', ''markdown'', ''code'', ''borderRadius'']
       (Ref [''borderRadius'']),
     Default [''components'', ''markdown'', ''code'', ''fontFamily'']
       (Ref [''font'', ''code'', ''family'']),
     Default [''components'', ''markdown'', ''code'', ''fontSize'']
       (Ref [''font'', ''code'', ''size'', ''medium''])]"

definition theme_sidebar :: "stmt list" where
  "theme_sidebar =
    [Default [''components'', ''sidebar'']
       (Lit (Obj [])),
     Default [''components'', ''sidebar'', ''default'']
       (Lit (Obj [])),
     Default [''components'', ''sidebar'', ''left'']
       (Lit (Obj [])),
     Default [''components'', ''sidebar'', ''left'', ''default'']
       (Lit (Obj [])),
     Default [''components'', ''sidebar'', ''left'', ''default'', ''bg'']
       (Ref [''colors'', ''default'', ''bgPrimary'']),
     Default [''components'', ''sidebar'', ''left'', ''default'', ''borderRight'']
       (Template [Lit (Str ''1px solid ''), Ref [''colors'', ''default'', ''borderColor'']]),
     Default [''components'', ''sidebar'', ''left'', ''iconButton'']
       (Lit (Obj [])),
     Default [''components'', ''sidebar'', ''left'', ''iconButton'', ''default'']
       (Lit (Obj [])),
     Default [''components'', ''sidebar'', ''left'', ''iconButton'', ''selected'']
       (Lit (Obj [])),
     Default [''components'', ''sidebar'', ''left'', ''iconButton'', ''selected'', ''bg'']
       (Ref [''colors'', ''state'', ''hover'', ''bg'']),
     Default [''components'', ''sidebar'', ''left'', ''iconButton'', ''selected'', ''borderLeft'']
       (Template [Lit (Str ''2px solid ''), Ref [''colors'', ''default'', ''secondary'']]),
     Default [''components'', ''sidebar'', ''left'', ''iconButton'', ''selected'', ''borderRight'']
       (Lit (Str ''2px solid transparent'')),
     Default [''components'', ''sidebar'', ''right'']
       (Lit (Obj [])),
     Default [''components'', ''sidebar'', ''right'', ''default'']
       (Lit (Obj [])),
     Default [''components'', ''sidebar'', ''right'', ''default'', ''bg'']
       (Ref [''colors'', ''default'', ''bgSecondary'']),
     Default [''components'', ''sidebar'', ''right'', ''default'', ''otherBg'']
       (Ref [''colors'', ''default'', ''bgPrimary'']),
     Default [''components'', ''sidebar'', ''right'', ''default'', ''borderRight'']
       (Template [Lit (Str ''1px solid ''), Ref [''colors'', ''default'', ''borderColor'']]),
     Default [''components'', ''sidebar'', ''right'', ''title'']
       (Lit (Obj [])),
     Default [''components'', ''sidebar'', ''right'', ''title'', ''borderBottom'']
       (Template [Lit (Str ''1px solid ''), Ref [''colors'', ''default'', ''borderColor''], Lit (Str '';'')]),
     Default [''components'', ''sidebar'', ''right'', ''title'', ''color'']
       (Ref [''colors'', ''default'', ''textSecondary'']),
     Default [''components'', ''sidebar'', ''right'', ''title'', ''fontSize'']
       (Ref [''font'', ''code'', ''size'', ''large''])]"

definition theme_editor :: "stmt list" where
  "theme_editor =
    [Default [''colors'', ''editor'']
       (Lit (Obj [])),
     Default [''colors'', ''editor'', ''bg'']
       (Ref [''colors'', ''default'', ''bgPrimary'']),
     Default [''colors'', ''editor'', ''color'']
       (Ref [''colors'', ''default'', ''textPrimary'']),
     Default [''colors'', ''editor'', ''cursorColor'']
       (Ref [''colors'', ''default'', ''textSecondary'']),
     Default [''colors'', ''editor'', ''activeLine'']
       (Lit (Obj [])),
     Default [''colors'', ''editor'', ''activeLine'', ''bg'']
       (Lit (Str ''inherit'')),
     Default [''colors'', ''editor'', ''activeLine'', ''borderColor'']
       (Ref [''colors'', ''default'', ''borderColor'']),
     Default [''colors'', ''editor'', ''selection'']
       (Lit (Obj [])),
     Default [''colors'', ''editor'', ''selection'', ''bg'']
       (Plus (Ref [''colors'', ''default'', ''primary'']) (Ref [''transparency'', ''medium''])),
     Default [''colors'', ''editor'', ''selection'', ''color'']
       (Lit (Str ''inherit'')),
     Default [''colors'', ''editor'', ''searchMatch'']
       (Lit (Obj [])),
     Default [''colors'', ''editor'', ''searchMatch'', ''bg'']
       (Plus (Ref [''colors'', ''default'', ''textSecondary'']) (Ref [''transparency'', ''medium''])),
     Default [''colors'', ''editor'', ''searchMatch'', ''color'']
       (Lit (Str ''inherit'')),
     Default [''colors'', ''editor'', ''searchMatch'', ''selectedBg'']
       (Lit (Str ''inherit'')),
     Default [''colors'', ''editor'', ''searchMatch'', ''selectedColor'']
       (Lit (Str ''inherit'')),
     Default [''colors'', ''editor'', ''gutter'']
       (Lit (Obj [])),
     Default [''colors'', ''editor'', ''gutter'', ''bg'']
       (Ref [''colors'', ''editor'', ''bg'']),
     Default [''colors'', ''editor'', ''gutter'', ''color'']
       (Ref [''colors'', ''default'', ''textSecondary'']),
     Default [''colors'', ''editor'', ''tooltip'']
       (Lit (Obj [])),
     Default [''colors'', ''editor'', ''tooltip'', ''bg'']
       (Ref [''colors'', ''default'', ''bgPrimary'']),
     Default [''colors'', ''editor'', ''tooltip'', ''color'']
       (Ref [''colors'', ''default'', ''textPrimary'']),
     Default [''colors'', ''editor'', ''tooltip'', ''selectedBg'']
       (Plus (Ref [''colors'', ''default'', ''primary'']) (Ref [''transparency'', ''medium''])),
     Default [''colors'', ''editor'', ''tooltip'', ''selectedColor'']
       (Ref [''colors'', ''default'', ''textPrimary''])]"

definition theme_home :: "stmt list" where
  "theme_home =
    [Default [''components'', ''home'']
       (Lit (Obj [])),
     Default [''components'', ''home'', ''default'']
       (Lit (Obj [])),
     Default [''components'', ''home'', ''default'', ''bg'']
       (Ref [''colors'', ''default'', ''bgSecondary'']),
     Default [''components'', ''home'', ''default'', ''color'']
       (Ref [''colors'', ''default'', ''textPrimary'']),
     Default [''components'', ''home'', ''default'', ''height'']
       (Lit (Str ''100%'')),
     Default [''components'', ''home'', ''default'', ''padding'']
       (Lit (Str ''0 8%'')),
     Default [''components'', ''home'', ''title'']
       (Lit (Obj [])),
     Default [''components'', ''home'', ''title'', ''color'']
       (Ref [''colors'', ''default'', ''textSecondary'']),
     Default [''components'', ''home'', ''title'', ''padding'']
       (Lit (Str ''2rem'')),
     Default [''components'', ''home'', ''title'', ''fontWeight'']
       (Lit (Str ''bold'')),
     Default [''components'', ''home'', ''title'', ''fontSize'']
       (Lit (Str ''2rem'')),
     Default [''components'', ''home'', ''title'', ''textAlign'']
       (Lit (Str ''center'')),
     Default [''components'', ''home'', ''resources'']
       (Lit (Obj [])),
     Default [''components'', ''home'', ''resources'', ''default'']
       (Lit (Obj [])),
     Default [''components'', ''home'', ''resources'', ''default'', ''maxWidth'']
       (Lit (Str ''53rem'')),
     Default [''components'', ''home'', ''resources'', ''title'']
       (Lit (Obj [])),
     Default [''components'', ''home'', ''resources'', ''title'', ''marginBottom'']
       (Lit (Str ''1rem'')),
     Default [''components'', ''home'', ''resources'', ''title'', ''fontWeight'']
       (Lit (Str ''bold'')),
     Default [''components'', ''home'', ''resources'', ''title'', ''fontSize'']
       (Lit (Str ''1.25rem'')),
     Default [''components'', ''home'', ''resources'', ''card'']
       (Lit (Obj [])),
     Default [''components'', ''home'', ''resources'', ''card'', ''default'']
       (Lit (Obj [])),
     Default [''components'', ''home'', ''resources'', ''card'', ''default'', ''bg'']
       (Ref [''colors'', ''default'', ''bgPrimary'']),
     Default [''components'', ''home'', ''resources'', ''card'', ''default'', ''color'']
       (Ref [''colors'', ''default'', ''textPrimary'']),
     Default [''components'', ''home'', ''resources'', ''card'', ''default'', ''border'']
       (Template [Lit (Str ''1px solid ''), Plus (Ref [''colors'', ''default'', ''borderColor'']) (Ref [''transparency'', ''medium''])]),
     Default [''components'', ''home'', ''resources'', ''card'', ''default'', ''borderRadius'']
       (Ref [''borderRadius'']),
     Default [''components'', ''home'', ''resources'', ''card'', ''default'', ''width'']
       (Lit (Str ''15rem'')),
     Default [''components'', ''home'', ''resources'', ''card'', ''default'', ''height'']
       (Lit (Str ''15rem'')),
     Default [''components'', ''home'', ''resources'', ''card'', ''default'', ''padding'']
       (Lit (Str ''1rem 1.5rem 1.5rem 1.5rem'')),
     Default [''components'', ''home'', ''resources'', ''card'', ''default'', ''marginRight'']
       (Lit (Str ''2rem'')),
     Default [''components'', ''home'', ''resources'', ''card'', ''default'', ''marginBottom'']
       (Lit (Str ''2rem'')),
     Default [''components'', ''home'', ''resources'', ''card'', ''image'']
       (Lit (Obj [])),
     Default [''components'', ''home'', ''resources'', ''card'', ''image'', ''width'']
       (Lit (Str ''1.25rem'')),
     Default [''components'', ''home'', ''resources'', ''card'', ''image'', ''height'']
       (Lit (Str ''1.25rem'')),
     Default [''components'', ''home'', ''resources'', ''card'', ''image'', ''marginRight'']
       (Lit (Str ''0.5rem'')),
     Default [''components'', ''home'', ''resources'', ''card'', ''title'']
       (Lit (Obj [])),
     Default [''components'', ''home'', ''resources'', ''card'', ''title'', ''display'']
       (Lit (Str ''flex'')),
     Default [''components'', ''home'', ''resources'', ''card'', ''title'', ''alignItems'']
       (Lit (Str ''center'')),
     Default [''components'', ''home'', ''resources'', ''card'', ''title'', ''height'']
       (Lit (Str ''20%'')),
     Default [''components'', ''home'', ''resources'', ''card'', ''title'', ''fontWeight'']
       (Lit (Str ''bold'')),
     Default [''components'', ''home'', ''resources'', ''card'', ''title'', ''fontSize'']
       (Ref [''font'', ''code'', ''size'', ''xlarge'']),
     Default [''components'', ''home'', ''resources'', ''card'', ''description'']
       (Lit (Obj [])),
     Default [''components'', ''home'', ''resources'', ''card'', ''description'', ''color'']
       (Ref [''colors'', ''default'', ''textSecondary'']),
     Default [''components'', ''home'', ''resources'', ''card'', ''description'', ''height'']
       (Lit (Str ''60%'')),
     Default [''components'', ''home'', ''resources'', ''card'', ''button'']
       (Lit (Obj [])),
     Default [''components'', ''home'', ''resources'', ''card'', ''button'', ''width'']
       (Lit (Str ''100%'')),
     Default [''components'', ''home'', ''tutorials'']
       (Lit (Obj [])),
     Default [''components'', ''home'', ''tutorials'', ''default'']
       (Lit (Obj [])),
     Default [''components'', ''home'', ''tutorials'', ''default'', ''minWidth'']
       (Lit (Str ''16rem'')),
     Default [''components'', ''home'', ''tutorials'', ''default'', ''maxWidth'']
       (Lit (Str ''27rem'')),
     Default [''components'', ''home'', ''tutorials'', ''title'']
       (Lit (Obj [])),
     Default [''components'', ''home'', ''tutorials'', ''title'', ''marginBottom'']
       (Lit (Str ''1rem'')),
     Default [''components'', ''home'', ''tutorials'', ''title'', ''fontWeight'']
       (Lit (Str ''bold'')),
     Default [''components'', ''home'', ''tutorials'', ''title'', ''fontSize'']
       (Lit (Str ''1.25rem'')),
     Default [''components'', ''home'', ''tutorials'', ''card'']
       (Lit (Obj [])),
     Default [''components'', ''home'', ''tutorials'', ''card'', ''bg'']
       (Ref [''colors'', ''default'', ''bgPrimary'']),
     Default [''components'', ''home'', ''tutorials'', ''card'', ''color'']
       (Ref [''colors'', ''default'', ''textPrimary'']),
     Default [''components'', ''home'', ''tutorials'', ''card'', ''border'']
       (Template [Lit (Str ''1px solid\<newline>      ''), Plus (Ref [''colors'', ''default'', ''borderColor'']) (Ref [''transparency'', ''medium''])]),
     Default [''components'', ''home'', ''tutorials'', ''card'', ''borderRadius'']
       (Ref [''borderRadius'']),
     Default [''components'', ''home'', ''tutorials'', ''card'', ''padding'']
       (Lit (Str ''1rem'')),
     Default [''components'', ''home'', ''tutorials'', ''card'', ''marginBottom'']
       (Lit (Str ''1rem'')),
     Default [''components'', ''home'', ''tutorials'', ''card'', ''transition'']
       (Template [Lit (Str ''all ''), Ref [''transition'', ''duration'', ''medium''], Lit (Str '' ''), Ref [''transition'', ''type'']]),
     Default [''components'', ''home'', ''tutorials'', ''card'', ''display'']
       (Lit (Str ''flex'')),
     Default [''components'', ''home'', ''tutorials'', ''card'', ''alignItems'']
       (Lit (Str ''center'')),
     Default [''components'', ''home'', ''tutorials'', ''card'', ''hover'']
       (Lit (Obj [])),
     Default [''components'', ''home'', ''tutorials'', ''card'', ''hover'', ''bg'']
       (Ref [''colors'', ''state'', ''hover'', ''bg''])]"

definition theme_terminal :: "stmt list" where
  "theme_terminal =
    [Default [''components'', ''terminal'']
       (Lit (Obj [])),
     Default [''components'', ''terminal'', ''default'']
       (Lit (Obj [])),
     Default [''components'', ''terminal'', ''default'', ''bg'']
       (Ref [''colors'', ''default'', ''bgPrimary'']),
     Default [''components'', ''terminal'', ''default'', ''color'']
       (Ref [''colors'', ''default'', ''textPrimary'']),
     Default [''components'', ''terminal'', ''default'', ''borderTop'']
       (Template [Lit (Str ''1px solid ''), Ref [''colors'', ''default'', ''primary''], Lit (Str '';'')]),
     Default [''components'', ''terminal'', ''xterm'']
       (Lit (Obj [])),
     Default [''components'', ''terminal'', ''xterm'', ''textPrimary'']
       (Ref [''colors'', ''default'', ''textPrimary'']),
     Default [''components'', ''terminal'', ''xterm'', ''textSecondary'']
       (Ref [''colors'', ''default'', ''textSecondary'']),
     Default [''components'', ''terminal'', ''xterm'', ''primary'']
       (Ref [''colors'', ''default'', ''primary'']),
     Default [''components'', ''terminal'', ''xterm'', ''secondary'']
       (Ref [''colors'', ''default'', ''secondary'']),
     Default [''components'', ''terminal'', ''xterm'', ''success'']
       (Ref [''colors'', ''state'', ''success'', ''color'']),
     Default [''components'', ''terminal'', ''xterm'', ''error'']
       (Ref [''colors'', ''state'', ''error'', ''color'']),
     Default [''components'', ''terminal'', ''xterm'', ''warning'']
       (Ref [''colors'', ''state'', ''warning'', ''color'']),
     Default [''components'', ''terminal'', ''xterm'', ''info'']
       (Ref [''colors'', ''state'', ''info'', ''color'']),
     Default [''components'', ''terminal'', ''xterm'', ''selectionBg'']
       (Ref [''colors'', ''default'', ''textSecondary'']),
     Default [''components'', ''terminal'', ''xterm'', ''cursor'']
       (Lit (Obj [])),
     Default [''components'', ''terminal'', ''xterm'', ''cursor'', ''color'']
       (Ref [''colors'', ''default'', ''textPrimary'']),
     Default [''components'', ''terminal'', ''xterm'', ''cursor'', ''accentColor'']
       (Ref [''components'', ''terminal'', ''default'', ''bg''])]"

definition theme_bottom :: "stmt list" where
  "theme_bottom =
    [Default [''components'', ''bottom'']
       (Lit (Obj [])),
     Default [''components'', ''bottom'', ''default'']
       (Lit (Obj [])),
     Default [''components'', ''bottom'', ''default'', ''bg'']
       (Ref [''colors'', ''default'', ''primary'']),
     Default [''components'', ''bottom'', ''default'', ''color'']
       (Ref [''colors'', ''default'', ''textPrimary'']),
     Default [''components'', ''bottom'', ''default'', ''padding'']
       (Lit (Str ''0 0.5rem'')),
     Default [''components'', ''bottom'', ''default'', ''fontSize'']
       (Ref [''font'', ''code'', ''size'', ''small'']),
     Default [''components'', ''bottom'', ''connect'']
       (Lit (Obj [])),
     Default [''components'', ''bottom'', ''connect'', ''border'']
       (Lit (Str ''none'')),
     Default [''components'', ''bottom'', ''connect'', ''padding'']
       (Lit (Str ''0 0.75rem'')),
     Default [''components'', ''bottom'', ''connect'', ''hover'']
       (Lit (Obj [])),
     Default [''components'', ''bottom'', ''connect'', ''hover'', ''bg'']
       (Plus (Ref [''components'', ''bottom'', ''default'', ''color'']) (Ref [''transparency'', ''low''])),
     Default [''components'', ''bottom'', ''endpoint'']
       (Lit (Obj [])),
     Default [''components'', ''bottom'', ''address'']
       (Lit (Obj [])),
     Default [''components'', ''bottom'', ''balance'']
       (Lit (Obj []))]"

definition theme_tutorial :: "stmt list" where
  "theme_tutorial =
    [Default [''components'', ''tutorial'']
       (Lit (Obj [])),
     Default [''components'', ''tutorial'', ''default'']
       (Lit (Obj [])),
     Default [''components'', ''tutorial'', ''default'', ''bg'']
       (Ref [''colors'', ''default'', ''bgSecondary'']),
     Default [''components'', ''tutorial'', ''default'', ''color'']
       (Ref [''colors'', ''default'', ''textPrimary'']),
     Default [''components'', ''tutorial'', ''default'', ''flex'']
       (Lit (Num (Finite False 1 1))),
     Default [''components'', ''tutorial'', ''default'', ''overflow'']
       (Lit (Str ''auto'')),
     Default [''components'', ''tutorial'', ''default'', ''opacity'']
       (Lit (Num (Finite False 0 0))),
     Default [''components'', ''tutorial'', ''default'', ''transition'']
       (Template [Lit (Str ''opacity ''), Ref [''transition'', ''duration'', ''medium''], Lit (Str '' ''), Ref [''transition'', ''type'']]),
     Default [''components'', ''tutorial'', ''aboutPage'']
       (Lit (Obj [])),
     Default [''components'', ''tutorial'', ''aboutPage'', ''bg'']
       (Ref [''colors'', ''default'', ''bgPrimary'']),
     Default [''components'', ''tutorial'', ''aboutPage'', ''borderBottomRightRadius'']
       (Ref [''borderRadius'']),
     Default [''components'', ''tutorial'', ''aboutPage'', ''borderTopRightRadius'']
       (Ref [''borderRadius'']),
     Default [''components'', ''tutorial'', ''aboutPage'', ''fontFamily'']
       (Ref [''font'', ''other'', ''family'']),
     Default [''components'', ''tutorial'', ''aboutPage'', ''fontSize'']
       (Ref [''font'', ''other'', ''size'', ''medium'']),
     Default [''components'', ''tutorial'', ''aboutPage'', ''padding'']
       (Lit (Str ''2rem'')),
     Default [''components'', ''tutorial'', ''aboutPage'', ''maxWidth'']
       (Lit (Str ''60rem'')),
     Default [''components'', ''tutorial'', ''tutorialPage'']
       (Lit (Obj [])),
     Default [''components'', ''tutorial'', ''tutorialPage'', ''bg'']
       (Ref [''colors'', ''default'', ''bgPrimary'']),
     Default [''components'', ''tutorial'', ''tutorialPage'', ''fontFamily'']
       (Ref [''font'', ''other'', ''family'']),
     Default [''components'', ''tutorial'', ''tutorialPage'', ''fontSize'']
       (Ref [''font'', ''other'', ''size'', ''medium'']),
     Default [''components'', ''tutorial'', ''tutorialPage'', ''padding'']
       (Lit (Str ''2rem''))]"

definition theme_tutorials :: "stmt list" where
  "theme_tutorials =
    [Default [''components'', ''tutorials'']
       (Lit (Obj [])),
     Default [''components'', ''tutorials'', ''default'']
       (Lit (Obj [])),
     Default [''components'', ''tutorials'', ''default'', ''bg'']
       (Ref [''colors'', ''default'', ''bgSecondary'']),
     Default [''components'', ''tutorials'', ''default'', ''color'']
       (Ref [''colors'', ''default'', ''textPrimary'']),
     Default [''components'', ''tutorials'', ''default'', ''fontFamily'']
       (Ref [''font'', ''other'', ''family'']),
     Default [''components'', ''tutorials'', ''default'', ''fontSize'']
       (Ref [''font'', ''other'', ''size'', ''medium'']),
     Default [''components'', ''tutorials'', ''card'']
       (Lit (Obj [])),
     Default [''components'', ''tutorials'', ''card'', ''default'']
       (Lit (Obj [])),
     Default [''components'', ''tutorials'', ''card'', ''default'', ''bg'']
       (Ref [''colors'', ''default'', ''bgPrimary'']),
     Default [''components'', ''tutorials'', ''card'', ''default'', ''color'']
       (Ref [''colors'', ''default'', ''textPrimary'']),
     Default [''components'', ''tutorials'', ''card'', ''default'', ''border'']
       (Template [Lit (Str ''1px solid ''), Plus (Ref [''colors'', ''default'', ''borderColor'']) (Ref [''transparency'', ''medium''])]),
     Default [''components'', ''tutorials'', ''card'', ''default'', ''borderRadius'']
       (Ref [''borderRadius'']),
     Default [''components'', ''tutorials'', ''card'', ''default'', ''boxShadow'']
       (Ref [''boxShadow'']),
     Default [''components'', ''tutorials'', ''card'', ''default'', ''transition'']
       (Template [Lit (Str ''all ''), Ref [''transition'', ''duration'', ''medium''], Lit (Str ''\<newline>      ''), Ref [''transition'', ''type'']]),
     Default [''components'', ''tutorials'', ''card'', ''gradient'']
       (Lit (Obj [])),
     Default [''components'', ''tutorials'', ''card'', ''info'']
       (Lit (Obj [])),
     Default [''components'', ''tutorials'', ''card'', ''info'', ''default'']
       (Lit (Obj [])),
     Default [''components'', ''tutorials'', ''card'', ''info'', ''default'', ''padding'']
       (Lit (Str '' 1rem 0.75rem'')),
     Default [''components'', ''tutorials'', ''card'', ''info'', ''name'']
       (Lit (Obj [])),
     Default [''components'', ''tutorials'', ''card'', ''info'', ''name'', ''fontWeight'']
       (Lit (Str ''bold'')),
     Default [''components'', ''tutorials'', ''card'', ''info'', ''description'']
       (Lit (Obj [])),
     Default [''components'', ''tutorials'', ''card'', ''info'', ''description'', ''marginTop'']
       (Lit (Str ''0.5rem'')),
     Default [''components'', ''tutorials'', ''card'', ''info'', ''description'', ''color'']
       (Ref [''colors'', ''default'', ''textSecondary'']),
     Default [''components'', ''tutorials'', ''card'', ''info'', ''category'']
       (Lit (Obj [])),
     Default [''components'', ''tutorials'', ''card'', ''info'', ''category'', ''padding'']
       (Lit (Str ''0.5rem 0.75rem'')),
     Default [''components'', ''tutorials'', ''card'', ''info'', ''category'', ''bg'']
       (Ref [''components'', ''tutorials'', ''default'', ''bg'']),
     Default [''components'', ''tutorials'', ''card'', ''info'', ''category'', ''color'']
       (Ref [''colors'', ''default'', ''textSecondary'']),
     Default [''components'', ''tutorials'', ''card'', ''info'', ''category'', ''fontSize'']
       (Ref [''font'', ''other'', ''size'', ''small'']),
     Default [''components'', ''tutorials'', ''card'', ''info'', ''category'', ''fontWeight'']
       (Lit (Str ''bold'')),
     Default [''components'', ''tutorials'', ''card'', ''info'', ''category'', ''borderRadius'']
       (Ref [''borderRadius'']),
     Default [''components'', ''tutorials'', ''card'', ''info'', ''category'', ''boxShadow'']
       (Ref [''boxShadow'']),
     Default [''components'', ''tutorials'', ''card'', ''info'', ''category'', ''width'']
       (Lit (Str ''fit-content''))]"

definition setDefaults :: "stmt list" where
  "setDefaults =
     theme_fonts @
     theme_transparency @
     theme_borderRadius @
     theme_boxShadow @
     theme_scrollbar @
     theme_transition @
     theme_stateColors @
     theme_components @
     theme_skeleton @
     theme_button @
     theme_menu @
     theme_input @
     theme_select @
     theme_toast @
     theme_tooltip @
     theme_markdown @
     theme_sidebar @
     theme_editor @
     theme_home @
     theme_terminal @
     theme_bottom @
     theme_tutorial @
     theme_tutorials"

subsection \<open>set\<close>

text \<open>
  \<open>PgThemeManager.set\<close>, named \<open>set_theme\<close> here. Its first two statements resolve the
  two names and write them into \<open>params\<close>, an object of the caller (or a new one, when the
  caller gives none): the model returns \<open>params\<close> as it is when \<open>set\<close> ends, together with
  what \<open>set\<close> does, also when \<open>set\<close> throws. The second statement is not reached when the
  first one throws.

  \<open>set_resolved\<close> is the rest of \<open>set\<close>, from line 73. It looks the theme and the font up
  (\<open>find\<close> gives \<open>undefined\<close> when there is none, and calling \<open>importTheme\<close> on it is a
  \<open>TypeError\<close>), imports and clones the theme, sets its name, fills the defaults, stores
  the two names and dispatches the two events. The result holds \<open>this._theme\<close>,
  \<open>this._font\<close>, the storage and the events dispatched (\<open>EventName.THEME_SET\<close> and
  \<open>EventName.THEME_FONT_SET\<close>, with their payloads). The clone of a value is the value.
\<close>

datatype theme_event = ThemeSet js_value | FontSet js_value

record set_result =
  result_theme :: js_value
  result_font :: js_value
  result_storage :: "string \<rightharpoonup> string"
  result_events :: "theme_event list"

definition fontValue :: "pg_font \<Rightarrow> js_value" where
  "fontValue f = Obj [(''family'', Str (family f)), (''size'', sizes f)]"

definition set_resolved :: "environment \<Rightarrow> importable_theme list \<Rightarrow> pg_font list \<Rightarrow>
    (string \<rightharpoonup> string) \<Rightarrow> string \<Rightarrow> string \<Rightarrow> error + set_result" where
  "set_resolved env themes fonts localStorage name' family' =
     (case find (\<lambda>t. theme_name t = name') themes of
        None \<Rightarrow> Inl TypeError
      | Some importableTheme \<Rightarrow>
     (let font = (case find (\<lambda>f. family f = family') fonts of
                    None \<Rightarrow> Undefined
                  | Some f \<Rightarrow> fontValue f)
      in case importTheme importableTheme of
        Inl e \<Rightarrow> Inl e
      | Inr imported \<Rightarrow>
     (case setProp imported ''name'' (Str (theme_name importableTheme)) of
        Inl e \<Rightarrow> Inl e
      | Inr named \<Rightarrow>
     (case execAll env font setDefaults named of
        Inl e \<Rightarrow> Inl e
      | Inr filled \<Rightarrow>
          Inr \<lparr>result_theme = filled, result_font = font,
               result_storage = localStorage(THEME_KEY \<mapsto> name', FONT_KEY \<mapsto> family'),
               result_events = [ThemeSet filled, FontSet font]\<rparr>))))"

definition set_theme :: "environment \<Rightarrow> importable_theme list \<Rightarrow> pg_font list \<Rightarrow>
    (string \<rightharpoonup> string) \<Rightarrow> set_params \<Rightarrow> set_params \<times> (error + set_result)" where
  "set_theme env themes fonts localStorage params =
     (case resolveThemeName themes localStorage params of
        Inl e \<Rightarrow> (params, Inl e)
      | Inr name' \<Rightarrow>
          (case resolveFontFamily fonts localStorage params of
             Inl e \<Rightarrow> (params\<lparr>themeName := Some name'\<rparr>, Inl e)
           | Inr family' \<Rightarrow>
               (params\<lparr>themeName := Some name', fontFamily := Some family'\<rparr>,
                set_resolved env themes fonts localStorage name' family')))"

text \<open>
  \<open>PgThemeManager.create\<close>: it keeps the two lists and calls \<open>set\<close> without parameters,
  that is with a new object.
\<close>

definition create :: "environment \<Rightarrow> importable_theme list \<Rightarrow> pg_font list \<Rightarrow>
    (string \<rightharpoonup> string) \<Rightarrow> error + set_result" where
  "create env themes fonts localStorage =
     snd (set_theme env themes fonts localStorage \<lparr>themeName = None, fontFamily = None\<rparr>)"

subsection \<open>Notions used in the statements about the filler\<close>

text \<open>
  Two paths are related when one is the beginning of the other: a write at one of them
  can change what is read at the other.
\<close>

fun related :: "string list \<Rightarrow> string list \<Rightarrow> bool" where
  "related [] q = True"
| "related (a # p) [] = True"
| "related (a # p) (b # q) = (a = b \<and> related p q)"

text \<open>
  The paths of the theme an expression reads, and the field, the expression and the test of
  a statement.
\<close>

fun reads :: "expr \<Rightarrow> string list list"
  and readsAll :: "expr list \<Rightarrow> string list list" where
  "reads (Lit v) = []"
| "reads (Const c path) = []"
| "reads FontRef = []"
| "reads (Ref path) = [path]"
| "reads (OptRef path links) = [path @ links]"
| "reads (Plus a b) = reads a @ reads b"
| "reads (Template parts) = readsAll parts"
| "reads (Cond c a b) = reads c @ reads a @ reads b"
| "readsAll [] = []"
| "readsAll (part # parts) = reads part @ readsAll parts"

fun target :: "stmt \<Rightarrow> string list" where
  "target (Default path e) = path"
| "target (IfFalsy path e) = path"

fun source :: "stmt \<Rightarrow> expr" where
  "source (Default path e) = e"
| "source (IfFalsy path e) = e"

fun assigns :: "stmt \<Rightarrow> js_value \<Rightarrow> bool" where
  "assigns (Default path e) current = (current = Undefined)"
| "assigns (IfFalsy path e) current = (\<not> truthy current)"

fun isIfFalsy :: "stmt \<Rightarrow> bool" where
  "isIfFalsy (Default path e) = False"
| "isIfFalsy (IfFalsy path e) = True"

text \<open>
  A sequence of statements is in dependency order when no statement reads a path related
  to its own field or to the field of a later statement, and the field of an \<open>IfFalsy\<close>
  statement is the field of no other statement.
\<close>

fun independent :: "stmt list \<Rightarrow> bool" where
  "independent [] = True"
| "independent (s # ss) =
     (list_all (\<lambda>p. \<not> related p (target s) \<and> list_all (\<lambda>s2. \<not> related p (target s2)) ss)
        (reads (source s)) \<and>
      list_all (\<lambda>s2. (isIfFalsy s \<or> isIfFalsy s2) \<longrightarrow> target s \<noteq> target s2) ss \<and>
      independent ss)"

text \<open>
  The same condition, checked method by method: every field of a method lies under the
  prefix of the method, and no path read by a method is related to the prefix of a later one.
\<close>

definition blockReads :: "stmt list \<Rightarrow> string list list" where
  "blockReads b = concat (map (\<lambda>s. reads (source s)) b)"

definition under :: "string list \<Rightarrow> stmt list \<Rightarrow> bool" where
  "under c b = list_all (\<lambda>s. take (length c) (target s) = c) b"

fun readsClear :: "stmt list \<Rightarrow> bool" where
  "readsClear [] = True"
| "readsClear (s # ss) =
     (list_all (\<lambda>p. \<not> related p (target s) \<and> list_all (\<lambda>s2. \<not> related p (target s2)) ss)
        (reads (source s)) \<and>
      readsClear ss)"

definition blockOk :: "string list \<times> stmt list \<Rightarrow> bool" where
  "blockOk cb =
     (under (fst cb) (snd cb) \<and> readsClear (snd cb) \<and>
      (list_all (\<lambda>s. \<not> isIfFalsy s) (snd cb) \<or> length (snd cb) = 1))"

definition summary :: "string list \<times> stmt list \<Rightarrow> string list \<times> string list list \<times> bool" where
  "summary cb = (fst cb, blockReads (snd cb), list_ex isIfFalsy (snd cb))"

fun clearAfter :: "(string list \<times> string list list \<times> bool) list \<Rightarrow> bool" where
  "clearAfter [] = True"
| "clearAfter ((c, rs, f) # later) =
     (list_all (\<lambda>(c2, rs2, f2). list_all (\<lambda>p. \<not> related p c2) rs \<and> ((f \<or> f2) \<longrightarrow> \<not> related c c2))
        later \<and>
      clearAfter later)"

definition apart :: "stmt list \<Rightarrow> stmt list \<Rightarrow> bool" where
  "apart xs ys \<longleftrightarrow>
     (\<forall>s\<in>set xs. \<forall>s2\<in>set ys.
        (\<forall>p\<in>set (reads (source s)). \<not> related p (target s2)) \<and>
        (isIfFalsy s \<or> isIfFalsy s2 \<longrightarrow> target s \<noteq> target s2))"

definition blocks :: "(string list \<times> stmt list) list" where
  "blocks =
    [([''font''], theme_fonts),
     ([''transparency''], theme_transparency),
     ([''borderRadius''], theme_borderRadius),
     ([''boxShadow''], theme_boxShadow),
     ([''scrollbar''], theme_scrollbar),
     ([''transition''], theme_transition),
     ([''colors'', ''state''], theme_stateColors),
     ([''components''], theme_components),
     ([''components'', ''skeleton''], theme_skeleton),
     ([''components'', ''button''], theme_button),
     ([''components'', ''menu''], theme_menu),
     ([''components'', ''input''], theme_input),
     ([''components'', ''select''], theme_select),
     ([''components'', ''toast''], theme_toast),
     ([''components'', ''tooltip''], theme_tooltip),
     ([''components'', ''markdown''], theme_markdown),
     ([''components'', ''sidebar''], theme_sidebar),
     ([''colors'', ''editor''], theme_editor),
     ([''components'', ''home''], theme_home),
     ([''components'', ''terminal''], theme_terminal),
     ([''components'', ''bottom''], theme_bottom),
     ([''components'', ''tutorial''], theme_tutorial),
     ([''components'', ''tutorials''], theme_tutorials)]"

text \<open>
  A value that was there is kept: a string, a number or a boolean is still the same value,
  and an object is still an object (its fields are kept by the same rule).
\<close>

fun isObj :: "js_value \<Rightarrow> bool" where
  "isObj (Obj entries) = True"
| "isObj v = False"

fun keeps :: "js_value \<Rightarrow> js_value \<Rightarrow> bool" where
  "keeps (Obj entries) v' = isObj v'"
| "keeps v v' = (v' = v)"

text \<open>
  Example values of the constants, a font and an imported theme with its name set, to run
  the filler on. The theme of the example holds no number, and the environment of the
  example is made with any sum.
\<close>

definition exConstants :: "const_name \<Rightarrow> js_value" where
  "exConstants c =
     (case c of
        DEFAULT_BORDER_RADIUS \<Rightarrow> Str ''4px''
      | DEFAULT_BOX_SHADOW \<Rightarrow> Str ''none''
      | DEFAULT_FONT_OTHER \<Rightarrow>
          Obj [(''family'', Str ''sans''), (''size'', Obj [(''small'', Str ''12px''), (''medium'', Str ''14px'')])]
      | DEFAULT_SCROLLBAR \<Rightarrow> Obj [(''dark'', Obj [(''thumb'', Str ''#fff'')]), (''light'', Obj [(''thumb'', Str ''#000'')])]
      | DEFAULT_TRANSITION \<Rightarrow> Obj [(''type'', Str ''linear''), (''duration'', Obj [(''medium'', Str ''200ms'')])]
      | DEFAULT_TRANSPARENCY \<Rightarrow> Obj [(''low'', Str ''16''), (''medium'', Str ''64''), (''high'', Str ''bb'')])"

definition exEnv :: "(js_number \<Rightarrow> js_number \<Rightarrow> js_number) \<Rightarrow> environment" where
  "exEnv add = \<lparr>constants = exConstants, addNumbers = add\<rparr>"

definition exFont :: js_value where
  "exFont = Obj [(''family'', Str ''mono''),
     (''size'', Obj [(''small'', Str ''12px''), (''medium'', Str ''13px''), (''large'', Str ''15px''),
                    (''xlarge'', Str ''17px'')])]"

definition exTheme :: js_value where
  "exTheme = Obj [(''isDark'', Bool True),
     (''colors'', Obj [
        (''default'', Obj [(''bgPrimary'', Str ''#111''), (''primary'', Str ''#abc'')]),
        (''state'', Obj [(''disabled'', Obj [(''color'', Str ''#999'')]), (''error'', Obj []),
                        (''hover'', Obj [(''color'', Str ''#aaa''), (''bg'', Str ''#bbb'')]),
                        (''info'', Obj []), (''success'', Obj []), (''warning'', Obj [])])]),
     (''components'', Obj [(''button'', Obj [(''default'', Obj [(''bg'', Str ''red'')])])]),
     (''name'', Str ''dracula'')]"




fun isOk :: "error + 'a \<Rightarrow> bool" where
  "isOk (Inr x) = True"
| "isOk (Inl e) = False"

section \<open>Properties of the command dispatcher\<close>

subsection \<open>Sorting and formatting\<close>

lemma countRun_append: "countRun cmp d previous xs = (found, rest) \<Longrightarrow> found @ rest = xs"
  by (induction xs arbitrary: previous found rest) (auto simp: Let_def split: if_splits prod.splits)

lemma mset_countAndMakeRun:
  "countAndMakeRun cmp xs = (found, rest) \<Longrightarrow> mset found + mset rest = mset xs"
proof (cases xs)
  case Nil
  then show "countAndMakeRun cmp xs = (found, rest) \<Longrightarrow> ?thesis" by auto
next
  case (Cons x ys)
  show "countAndMakeRun cmp xs = (found, rest) \<Longrightarrow> ?thesis"
  proof (cases ys)
    case Nil
    assume "countAndMakeRun cmp xs = (found, rest)"
    then show ?thesis using Cons Nil by auto
  next
    case (Cons y more)
    assume c: "countAndMakeRun cmp xs = (found, rest)"
    obtain found' rest' where r: "countRun cmp (cmp y x < 0) y more = (found', rest')"
      by (cases "countRun cmp (cmp y x < 0) y more")
    then have "found' @ rest' = more" by (rule countRun_append)
    then have "mset found' + mset rest' = mset more"
      by (metis mset_append)
    then show ?thesis using c r \<open>xs = x # ys\<close> Cons by (auto simp: Let_def split: if_splits)
  qed
qed

lemma mset_insertPivot: "mset (insertPivot cmp front pivot) = add_mset pivot (mset front)"
proof -
  have "mset (take n front) + mset (drop n front) = mset front" for n
    by (metis append_take_drop_id mset_append)
  then show ?thesis by (simp add: insertPivot_def Let_def)
qed

lemma mset_binaryInsertionSort: "mset (binaryInsertionSort cmp found rest) = mset found + mset rest"
  unfolding binaryInsertionSort_def
  by (induction rest arbitrary: found) (simp_all add: mset_insertPivot)

lemma mset_sort_by: "mset (sort_by cmp xs) = mset xs"
proof -
  obtain found rest where r: "countAndMakeRun cmp xs = (found, rest)"
    by (cases "countAndMakeRun cmp xs")
  then show ?thesis
    using mset_countAndMakeRun [OF r] by (simp add: sort_by_def mset_binaryInsertionSort)
qed

lemma set_sort_by: "set (sort_by cmp xs) = set xs"
  using mset_sort_by [of cmp xs] by (metis set_mset_mset)

lemma padding_Inr: "(\<exists>s. padding n = Inr s) \<longleftrightarrow> n \<le> 24"
  by (auto simp: padding_def)

lemma formatEntries_Inr:
  "(\<exists>s. formatEntries acc cmds = Inr s) \<longleftrightarrow> (\<forall>c\<in>set cmds. length (name c) \<le> 24)"
proof (induction cmds arbitrary: acc)
  case Nil
  then show ?case by simp
next
  case (Cons c cmds)
  show ?case
  proof (cases "length (name c) \<le> 24")
    case True
    then obtain p where "padding (length (name c)) = Inr p"
      using padding_Inr by blast
    then show ?thesis using Cons.IH True by simp
  next
    case False
    then obtain e where "padding (length (name c)) = Inl e"
      using padding_Inr [of "length (name c)"] by (cases "padding (length (name c))") auto
    then show ?thesis using False by simp
  qed
qed

lemma formatEntries_Inl:
  "formatEntries acc cmds = Inl e \<Longrightarrow>
     (e = TypeError \<and> (\<exists>c\<in>set cmds. length (name c) = 25)) \<or>
     (e = RangeError \<and> (\<exists>c\<in>set cmds. 25 < length (name c)))"
proof (induction cmds arbitrary: acc)
  case Nil
  then show ?case by simp
next
  case (Cons c cmds)
  then show ?case
    by (auto simp: padding_def split: if_splits sum.splits)
qed

text \<open>
  Claim C10. \<open>formatCmdList\<close> returns a string exactly when every name in the list has at
  most 24 characters. A list with a name of 25 characters or more makes it throw: a
  \<open>TypeError\<close> (the \<open>reduce\<close> of an empty array) can only come from a name of exactly 25
  characters and a \<open>RangeError\<close> (the array of negative length) only from a longer one.
\<close>

theorem formatCmdList_total_iff:
  "((\<exists>s. formatCmdList lc list = Inr s) \<longleftrightarrow> (\<forall>c\<in>set list. length (name c) \<le> 24)) \<and>
   ((\<exists>c\<in>set list. 25 \<le> length (name c)) \<longrightarrow>
      formatCmdList lc list = Inl TypeError \<or> formatCmdList lc list = Inl RangeError) \<and>
   (formatCmdList lc list = Inl TypeError \<longrightarrow> (\<exists>c\<in>set list. length (name c) = 25)) \<and>
   (formatCmdList lc list = Inl RangeError \<longrightarrow> (\<exists>c\<in>set list. 25 < length (name c)))"
proof -
  have a: "(\<exists>s. formatCmdList lc list = Inr s) \<longleftrightarrow> (\<forall>c\<in>set list. length (name c) \<le> 24)"
    unfolding formatCmdList_def by (simp add: formatEntries_Inr set_sort_by)
  have b: "formatCmdList lc list = Inl e \<Longrightarrow>
     (e = TypeError \<and> (\<exists>c\<in>set list. length (name c) = 25)) \<or>
     (e = RangeError \<and> (\<exists>c\<in>set list. 25 < length (name c)))" for e
    unfolding formatCmdList_def using formatEntries_Inl [of "[]" "sort_by (cmdCompare lc) list" e]
    by (simp add: set_sort_by)
  have c: "formatCmdList lc list = Inl TypeError \<or> formatCmdList lc list = Inl RangeError"
    if "\<exists>c\<in>set list. 25 \<le> length (name c)"
  proof -
    from that a have "\<not> (\<exists>s. formatCmdList lc list = Inr s)" by fastforce
    then obtain e where e: "formatCmdList lc list = Inl e"
      by (cases "formatCmdList lc list") auto
    with b [OF e] show ?thesis by auto
  qed
  from a b c show ?thesis by blast
qed

theorem formatCmdList_total_iff_witness:
  "(\<exists>c\<in>set [Command ''abcdefghijklmnopqrstuvwxy'' ''x'' [] None None None :: unit command].
      25 \<le> length (name c)) \<and>
   (formatCmdList compareCodes
      [Command ''abcdefghijklmnopqrstuvwxy'' ''x'' [] None None None :: unit command] = Inl TypeError \<or>
    formatCmdList compareCodes
      [Command ''abcdefghijklmnopqrstuvwxy'' ''x'' [] None None None :: unit command] = Inl RangeError) \<and>
   length (name (Command ''abc'' ''x'' [] None None None :: unit command)) \<le> 24 \<and>
   (\<exists>s. formatCmdList compareCodes [Command ''abc'' ''x'' [] None None None :: unit command] = Inr s)"
  using formatCmdList_total_iff
          [of compareCodes "[Command ''abcdefghijklmnopqrstuvwxy'' ''x'' [] None None None :: unit command]"]
        formatCmdList_total_iff
          [of compareCodes "[Command ''abc'' ''x'' [] None None None :: unit command]"]
  by auto

subsection \<open>The loop and the walk\<close>

lemma loop_resolve:
  "loop lc input cmdName cmd pre toks trace =
     (case resolve cmd pre toks of
        None \<Rightarrow> (Inr None, trace)
      | Some (cmd', pre', rest) \<Rightarrow>
          (case takeArgs cmd' rest of
             Inl e \<Rightarrow> (Inl e, trace)
           | Inr inputs \<Rightarrow>
               (case runPreChecks (preCheck cmd') of
                  Some msg \<Rightarrow> (Inl (Thrown msg), trace)
                | None \<Rightarrow> runCommand lc input cmdName cmd' pre' inputs trace)))"
proof (induction toks arbitrary: cmd pre)
  case Nil
  then show ?case by simp
next
  case (Cons token rest)
  show ?case
  proof (cases "rest \<noteq> [] \<and> takeArgs (descend cmd token) rest = Inr []
         \<and> runPreChecks (preCheck (descend cmd token)) = None")
    case True
    then show ?thesis
      using Cons.IH [of "descend cmd token" "pre @ [token]"]
      by (simp add: descend_def)
  next
    case False
    then show ?thesis
      by (auto simp: descend_def Let_def split: sum.splits option.splits)
  qed
qed

lemma split_nonempty: "split s \<noteq> []"
  by (induction s) (auto split: list.splits)

lemma resolve_Some: "toks \<noteq> [] \<Longrightarrow> \<exists>st. resolve cmd pre toks = Some st"
  by (induction toks arbitrary: cmd pre) auto

lemma tokens_foo_bar_baz: "split (trim ''foo bar baz'') = [''foo'', ''bar'', ''baz'']"
  by (simp add: trim_def is_space_def)

lemma find_key:
  "find (\<lambda>(cmdName, _). cmdName = key) commands = Some (k, cmd) \<Longrightarrow> k = key"
  by (auto simp: find_Some_iff)

lemma findSubcommand_name: "findSubcommand cmd token = Some sub \<Longrightarrow> name sub = token"
  by (auto simp: findSubcommand_def find_Some_iff split: option.splits)

lemma findSubcommand_isSubcommand:
  "isSubcommand cmd token \<longleftrightarrow> findSubcommand cmd token \<noteq> None"
  by (cases "subcommands cmd")
     (auto simp add: findSubcommand_def isSubcommand_def list_ex_iff find_None_iff)

lemma self_in_commands_of: "c \<in> commands_of c"
  by (cases c) simp

lemma commands_of_trans: "b \<in> commands_of a \<Longrightarrow> c \<in> commands_of b \<Longrightarrow> c \<in> commands_of a"
proof (induction a arbitrary: b)
  case (Command n d p a r subs)
  show ?case
  proof (cases "b = Command n d p a r subs")
    case True
    with Command.prems show ?thesis by simp
  next
    case False
    with Command.prems obtain cs s where cs: "subs = Some cs" "s \<in> set cs" "b \<in> commands_of s"
      by (auto split: option.splits)
    then have "c \<in> commands_of s"
      using Command.IH [of cs s b] Command.prems(2) by simp
    with cs show ?thesis by auto
  qed
qed

lemma findSubcommand_in: "findSubcommand cmd token = Some sub \<Longrightarrow> sub \<in> commands_of cmd"
proof -
  assume a: "findSubcommand cmd token = Some sub"
  then obtain cs where cs: "subcommands cmd = Some cs" "sub \<in> set cs"
    by (auto simp: findSubcommand_def find_Some_iff split: option.splits)
  then show ?thesis
    by (cases cmd) (auto intro: self_in_commands_of)
qed

lemma descend_in: "descend cmd token \<in> commands_of cmd"
  by (auto simp: descend_def self_in_commands_of findSubcommand_in split: option.splits)

lemma resolve_in:
  "resolve cmd pre toks = Some (c, pre', rest) \<Longrightarrow> c \<in> commands_of cmd"
proof (induction toks arbitrary: cmd pre)
  case Nil
  then show ?case by simp
next
  case (Cons token toks)
  show ?case
  proof (cases "toks \<noteq> [] \<and> takeArgs (descend cmd token) toks = Inr []
         \<and> runPreChecks (preCheck (descend cmd token)) = None")
    case True
    with Cons.prems have "resolve (descend cmd token) (pre @ [token]) toks = Some (c, pre', rest)"
      by simp
    then have "c \<in> commands_of (descend cmd token)" by (rule Cons.IH)
    with descend_in show ?thesis by (rule commands_of_trans)
  next
    case False
    with Cons.prems have "c = descend cmd token" by auto
    then show ?thesis by (simp add: descend_in)
  qed
qed

text \<open>What the end of the last iteration adds to the trace.\<close>

lemma runCommand_cases:
  "\<exists>res tail. runCommand lc input cmdName cmd pre inputs trace = (res, trace @ tail) \<and>
     ((tail = [] \<and> (\<exists>e. res = Inl e)) \<or>
      (\<exists>block. tail = [Log block] \<and> res = Inr None) \<or>
      (\<exists>h p msg. run cmd = Some h \<and> h input p = Inl msg \<and>
         tail = [Invoke (name cmd) input p] \<and> res = Inl (Thrown msg)) \<or>
      (\<exists>h p r. run cmd = Some h \<and> h input p = Inr r \<and>
         tail = [Invoke (name cmd) input p, CustomEvent (getEventName cmdName finish) (Result r)] \<and>
         res = Inr (Some r)))"
  unfolding runCommand_def by (auto split: option.splits sum.splits)

lemma loop_cases:
  assumes "toks \<noteq> []"
  shows "\<exists>res tail. loop lc input k cmd pre toks trace = (res, trace @ tail) \<and>
     ((tail = [] \<and> (\<exists>e. res = Inl e)) \<or>
      (\<exists>block. tail = [Log block] \<and> res = Inr None) \<or>
      (\<exists>c h p msg. c \<in> commands_of cmd \<and> run c = Some h \<and> h input p = Inl msg \<and>
         tail = [Invoke (name c) input p] \<and> res = Inl (Thrown msg)) \<or>
      (\<exists>c h p r. c \<in> commands_of cmd \<and> run c = Some h \<and> h input p = Inr r \<and>
         tail = [Invoke (name c) input p, CustomEvent (getEventName k finish) (Result r)] \<and>
         res = Inr (Some r)))"
proof -
  from assms obtain c pre' rest where r: "resolve cmd pre toks = Some (c, pre', rest)"
    using resolve_Some [of toks cmd pre] by auto
  then have c: "c \<in> commands_of cmd" by (rule resolve_in)
  show ?thesis
  proof (cases "takeArgs c rest")
    case (Inl e)
    then show ?thesis unfolding loop_resolve r by simp
  next
    case (Inr inputs)
    show ?thesis
    proof (cases "runPreChecks (preCheck c)")
      case (Some msg)
      then show ?thesis unfolding loop_resolve r using Inr by simp
    next
      case None
      have "loop lc input k cmd pre toks trace = runCommand lc input k c pre' inputs trace"
        unfolding loop_resolve r using Inr None by simp
      then show ?thesis
        using runCommand_cases [of lc input k c pre' inputs trace] c by metis
    qed
  qed
qed

subsection \<open>Dispatch of \<open>foo bar baz\<close>\<close>

text \<open>
  Claim C1, amended. Let \<open>foo\<close> be the top-level command found under the code name
  \<open>foo\<close>, let \<open>bar\<close> be the subcommand of \<open>foo\<close> that the token \<open>bar\<close> finds, with a
  handler, the single required argument \<open>target\<close> and no subcommand named \<open>baz\<close>. If
  \<open>foo\<close> has no subcommand named \<open>foo\<close> and no precondition check of \<open>foo\<close> or \<open>bar\<close>
  throws, then \<open>execute\<close> on the line \<open>foo bar baz\<close> dispatches the start event, calls the
  handler of \<open>bar\<close> with the input and the mapping of \<open>target\<close> to \<open>baz\<close>, and either
  dispatches the finish event and returns the handler's result or throws what the handler
  throws.
\<close>

theorem execute_foo_bar_baz:
  assumes top: "find (\<lambda>(cmdName, _). cmdName = ''foo'') commands = Some (k, foo)"
    and nofoo: "findSubcommand foo ''foo'' = None"
    and bar: "findSubcommand foo ''bar'' = Some bar"
    and handler: "run bar = Some handler"
    and specs: "args bar = Some [Arg ''target'' False]"
    and nobaz: "\<not> isSubcommand bar ''baz''"
    and chk_foo: "runPreChecks (preCheck foo) = None"
    and chk_bar: "runPreChecks (preCheck bar) = None"
  shows "execute lc commands ''foo bar baz'' =
     (case handler ''foo bar baz'' [''target'' \<mapsto> Some ''baz''] of
        Inl msg \<Rightarrow>
          (Inl (Thrown msg),
           [CustomEvent (getEventName ''foo'' start) (Input ''foo bar baz''),
            Invoke ''bar'' ''foo bar baz'' [''target'' \<mapsto> Some ''baz'']])
      | Inr result \<Rightarrow>
          (Inr (Some result),
           [CustomEvent (getEventName ''foo'' start) (Input ''foo bar baz''),
            Invoke ''bar'' ''foo bar baz'' [''target'' \<mapsto> Some ''baz''],
            CustomEvent (getEventName ''foo'' finish) (Result result)]))"
proof -
  have k: "k = ''foo''" using top by (rule find_key)
  have nm: "name bar = ''bar''" using bar by (rule findSubcommand_name)
  have isbar: "isSubcommand foo ''bar''"
    using bar by (simp add: findSubcommand_isSubcommand)
  have step0: "resolve foo [] [''foo'', ''bar'', ''baz''] = resolve foo [''foo''] [''bar'', ''baz'']"
    using nofoo isbar chk_foo by (simp add: descend_def takeArgs_def)
  have take1: "takeArgs bar [''baz''] = Inr [''baz'']"
    using nobaz specs by (simp add: takeArgs_def)
  have step1: "resolve foo [''foo''] [''bar'', ''baz''] = Some (bar, [''foo''], [''baz''])"
    using bar take1 by (simp add: descend_def)
  have parse: "parseArgs bar [''baz''] = Inr [''target'' \<mapsto> Some ''baz'']"
    using specs by (simp add: parseArgs_def inputArgAt_def assign_def)
  have "execute lc commands ''foo bar baz'' =
      loop lc ''foo bar baz'' ''foo'' foo [] [''foo'', ''bar'', ''baz'']
        [CustomEvent (getEventName ''foo'' start) (Input ''foo bar baz'')]"
    unfolding execute_def using top k tokens_foo_bar_baz
    by (simp add: Let_def trim_def is_space_def)
  also have "\<dots> = runCommand lc ''foo bar baz'' ''foo'' bar [''foo''] [''baz'']
        [CustomEvent (getEventName ''foo'' start) (Input ''foo bar baz'')]"
    unfolding loop_resolve step0 step1 using take1 chk_bar by simp
  also have "\<dots> = (case handler ''foo bar baz'' [''target'' \<mapsto> Some ''baz''] of
        Inl msg \<Rightarrow>
          (Inl (Thrown msg),
           [CustomEvent (getEventName ''foo'' start) (Input ''foo bar baz''),
            Invoke ''bar'' ''foo bar baz'' [''target'' \<mapsto> Some ''baz'']])
      | Inr result \<Rightarrow>
          (Inr (Some result),
           [CustomEvent (getEventName ''foo'' start) (Input ''foo bar baz''),
            Invoke ''bar'' ''foo bar baz'' [''target'' \<mapsto> Some ''baz''],
            CustomEvent (getEventName ''foo'' finish) (Result result)]))"
    unfolding runCommand_def using handler parse nm by (simp split: sum.splits)
  finally show ?thesis .
qed

theorem execute_foo_bar_baz_witness:
  "execute compareCodes [(''foo'', exFoo)] ''foo bar baz'' =
     (Inr (Some ''foo bar baz''),
      [CustomEvent ''ondidrunstartfoo'' (Input ''foo bar baz''),
       Invoke ''bar'' ''foo bar baz'' [''target'' \<mapsto> Some ''baz''],
       CustomEvent ''ondidrunfinishfoo'' (Result ''foo bar baz'')])"
  using execute_foo_bar_baz [of "[(''foo'', exFoo)]" "''foo''" exFoo exBar echoHandler compareCodes]
  by (simp add: exFoo_def exBar_def findSubcommand_def isSubcommand_def passingCheck_def
        echoHandler_def)

text \<open>
  The claim as stated fails when a precondition check throws: the tree below has all the
  claim asks for, and the check of \<open>foo\<close> aborts the dispatch before the handler.
\<close>

theorem execute_foo_bar_baz_counterexample:
  "findSubcommand exFooGuarded ''bar'' = Some exBar \<and>
   run exBar = Some echoHandler \<and>
   args exBar = Some [Arg ''target'' False] \<and>
   \<not> isSubcommand exBar ''baz'' \<and>
   execute compareCodes [(''foo'', exFooGuarded)] ''foo bar baz'' =
     (Inl (Thrown ''not allowed''),
      [CustomEvent ''ondidrunstartfoo'' (Input ''foo bar baz'')])"
  by (simp add: execute_def trim_def is_space_def exFooGuarded_def exBar_def findSubcommand_def
        isSubcommand_def takeArgs_def failingCheck_def)

subsection \<open>Start and finish notifications\<close>

text \<open>
  Claim C2, amended. An input that is empty after trimming returns \<open>undefined\<close> with no
  error and no notification. Otherwise, if the first token is the code name of no
  top-level command, \<open>execute\<close> throws the not-found error and dispatches nothing. If it is
  the code name \<open>k\<close> of a command, the first thing \<open>execute\<close> does is to dispatch the
  start event of \<open>k\<close> with the trimmed input, and no other start event follows. After it
  there is either nothing (an error before the handler), or the usage block, or the call of
  one handler that throws, or the call of one handler followed by the finish event of \<open>k\<close>
  with the handler's result, which is also what \<open>execute\<close> returns. So the finish event is
  dispatched exactly when a handler was called and returned.
\<close>

theorem execute_notifications:
  "(hd (split (trim input)) = [] \<longrightarrow> execute lc commands input = (Inr None, [])) \<and>
   (hd (split (trim input)) \<noteq> [] \<and>
    find (\<lambda>(cmdName, _). cmdName = hd (split (trim input))) commands = None \<longrightarrow>
      execute lc commands input = (Inl (CommandNotFound (hd (split (trim input)))), [])) \<and>
   (hd (split (trim input)) \<noteq> [] \<and>
    find (\<lambda>(cmdName, _). cmdName = hd (split (trim input))) commands = Some (k, cmd) \<longrightarrow>
      (\<exists>res tail.
         execute lc commands input =
           (res, CustomEvent (getEventName k start) (Input (trim input)) # tail) \<and>
         ((tail = [] \<and> (\<exists>e. res = Inl e)) \<or>
          (\<exists>block. tail = [Log block] \<and> res = Inr None) \<or>
          (\<exists>c h p msg. c \<in> commands_of cmd \<and> run c = Some h \<and> h (trim input) p = Inl msg \<and>
             tail = [Invoke (name c) (trim input) p] \<and> res = Inl (Thrown msg)) \<or>
          (\<exists>c h p r. c \<in> commands_of cmd \<and> run c = Some h \<and> h (trim input) p = Inr r \<and>
             tail = [Invoke (name c) (trim input) p,
                     CustomEvent (getEventName k finish) (Result r)] \<and>
             res = Inr (Some r)))))"
proof -
  obtain t ts where toks: "split (trim input) = t # ts"
    using split_nonempty [of "trim input"] by (cases "split (trim input)") auto
  have a: "execute lc commands input = (Inr None, [])" if "t = []"
    unfolding execute_def using toks that by (simp add: Let_def)
  have b: "execute lc commands input = (Inl (CommandNotFound t), [])"
    if "t \<noteq> []" "find (\<lambda>(cmdName, _). cmdName = t) commands = None"
    unfolding execute_def using toks that by (simp add: Let_def)
  have c: "execute lc commands input =
      loop lc (trim input) k cmd [] (t # ts) [CustomEvent (getEventName k start) (Input (trim input))]"
    if "t \<noteq> []" "find (\<lambda>(cmdName, _). cmdName = t) commands = Some (k, cmd)"
    unfolding execute_def using toks that by (simp add: Let_def)
  show ?thesis
    using a b c toks
      loop_cases [of "t # ts" lc "trim input" k cmd "[]"
         "[CustomEvent (getEventName k start) (Input (trim input))]"]
    by (simp del: loop.simps)
qed

theorem execute_notifications_witness:
  "(hd (split (trim ''  '')) = [] \<and>
    execute compareCodes [(''foo'', exFoo)] ''  '' = (Inr None, [])) \<and>
   (hd (split (trim ''nope'')) \<noteq> [] \<and>
    find (\<lambda>(cmdName, _). cmdName = hd (split (trim ''nope''))) [(''foo'', exFoo)] = None \<and>
    execute compareCodes [(''foo'', exFoo)] ''nope'' = (Inl (CommandNotFound ''nope''), [])) \<and>
   (hd (split (trim '' foo bar baz'')) \<noteq> [] \<and>
    find (\<lambda>(cmdName, _). cmdName = hd (split (trim '' foo bar baz''))) [(''foo'', exFoo)]
      = Some (''foo'', exFoo) \<and>
    (\<exists>res tail. execute compareCodes [(''foo'', exFoo)] '' foo bar baz'' =
       (res, CustomEvent ''ondidrunstartfoo'' (Input ''foo bar baz'') # tail)))"
proof -
  have t1: "split (trim ''  '') = [[]]"
    by (simp add: trim_def is_space_def)
  have t2: "split (trim ''nope'') = [''nope'']"
    by (simp add: trim_def is_space_def)
  have t3: "trim '' foo bar baz'' = ''foo bar baz''"
    by (simp add: trim_def is_space_def)
  have s3: "split ''foo bar baz'' = [''foo'', ''bar'', ''baz'']"
    by simp
  show ?thesis
    using execute_notifications [of "''  ''" compareCodes "[(''foo'', exFoo)]"]
      execute_notifications [of "''nope''" compareCodes "[(''foo'', exFoo)]"]
      execute_notifications [where input = "'' foo bar baz''" and lc = compareCodes
        and commands = "[(''foo'', exFoo)]" and k = "''foo''" and cmd = exFoo]
    unfolding t1 t2 t3 s3 by auto
qed

text \<open>
  The claim as stated fails on the empty line: its first token is the empty string, which
  is the code name of no command, and \<open>execute\<close> returns without an error.
\<close>

theorem execute_notifications_counterexample:
  "hd (split (trim [])) = [] \<and>
   map_of [(''foo'', exFoo)] [] = None \<and>
   execute compareCodes [(''foo'', exFoo)] [] = (Inr None, [])"
  by (simp add: execute_def trim_def)

subsection \<open>Argument errors\<close>


lemma execute_resolved:
  assumes "split (trim input) = t # ts" "t \<noteq> []"
    and "find (\<lambda>(cmdName, _). cmdName = t) commands = Some (k, c0)"
    and "resolve c0 [] (t # ts) = Some (cmd, pre, rest)"
  shows "execute lc commands input =
     (case takeArgs cmd rest of
        Inl e \<Rightarrow> (Inl e, [CustomEvent (getEventName k start) (Input (trim input))])
      | Inr inputs \<Rightarrow>
          (case runPreChecks (preCheck cmd) of
             Some msg \<Rightarrow> (Inl (Thrown msg), [CustomEvent (getEventName k start) (Input (trim input))])
           | None \<Rightarrow> runCommand lc (trim input) k cmd pre inputs
                      [CustomEvent (getEventName k start) (Input (trim input))]))"
proof -
  have "execute lc commands input =
      loop lc (trim input) k c0 [] (t # ts) [CustomEvent (getEventName k start) (Input (trim input))]"
    unfolding execute_def using assms(1-3) by (simp add: Let_def)
  then show ?thesis
    unfolding loop_resolve assms(4) by simp
qed








subsection \<open>Optional arguments without a token\<close>

lemma bindArgs_keeps_undefined:
  "length inputs \<le> i \<Longrightarrow> parsedArgs n = Some None \<Longrightarrow>
   bindArgs specs inputs i parsedArgs = Inr parsed \<Longrightarrow> parsed n = Some None"
proof (induction specs arbitrary: i parsedArgs)
  case Nil
  then show ?case by simp
next
  case (Cons a specs)
  have none: "inputArgAt inputs i = None"
    using Cons.prems(1) by (simp add: inputArgAt_def)
  have upd: "(assign parsedArgs (arg_name a) (inputArgAt inputs i)) n = Some None"
    using Cons.prems(2) none by (simp add: assign_def)
  have next_call:
    "bindArgs specs inputs (Suc i) (assign parsedArgs (arg_name a) (inputArgAt inputs i)) = Inr parsed"
    using Cons.prems(3) by (simp add: Let_def split: if_splits)
  have "length inputs \<le> Suc i" using Cons.prems(1) by simp
  then show ?case using upd next_call by (rule Cons.IH)
qed

lemma bindArgs_undefined:
  "j < length specs \<Longrightarrow> length inputs \<le> i + j \<Longrightarrow> arg_name (specs ! j) \<noteq> ''__proto__'' \<Longrightarrow>
   bindArgs specs inputs i parsedArgs = Inr parsed \<Longrightarrow> parsed (arg_name (specs ! j)) = Some None"
proof (induction specs arbitrary: i j parsedArgs)
  case Nil
  then show ?case by simp
next
  case (Cons a specs)
  have next_call:
    "bindArgs specs inputs (Suc i) (assign parsedArgs (arg_name a) (inputArgAt inputs i)) = Inr parsed"
    using Cons.prems(4) by (simp add: Let_def split: if_splits)
  show ?case
  proof (cases j)
    case 0
    then have "inputArgAt inputs i = None"
      using Cons.prems(2) by (simp add: inputArgAt_def)
    moreover have "arg_name a \<noteq> ''__proto__''"
      using Cons.prems(3) 0 by simp
    ultimately have "(assign parsedArgs (arg_name a) (inputArgAt inputs i)) (arg_name a) = Some None"
      by (simp add: assign_def)
    then have "parsed (arg_name a) = Some None"
      using bindArgs_keeps_undefined [OF _ _ next_call] Cons.prems(2) 0 by simp
    with 0 show ?thesis by simp
  next
    case (Suc j')
    then show ?thesis
      using Cons.IH [of j' "Suc i", OF _ _ _ next_call] Cons.prems(1,2,3) by simp
  qed
qed

lemma bindArgs_no_proto:
  "bindArgs specs inputs i parsedArgs = Inr parsed \<Longrightarrow> parsedArgs ''__proto__'' = None \<Longrightarrow>
   parsed ''__proto__'' = None"
proof (induction specs arbitrary: i parsedArgs)
  case Nil
  then show ?case by simp
next
  case (Cons a specs)
  have next_call:
    "bindArgs specs inputs (Suc i) (assign parsedArgs (arg_name a) (inputArgAt inputs i)) = Inr parsed"
    using Cons.prems(1) by (simp add: Let_def split: if_splits)
  have "(assign parsedArgs (arg_name a) (inputArgAt inputs i)) ''__proto__'' = None"
    using Cons.prems(2) by (simp add: assign_def)
  with next_call show ?case by (rule Cons.IH)
qed

lemma runCommand_Invoke:
  "Invoke nm inp parsed \<in> set (snd (runCommand lc input k cmd pre inputs trace)) \<Longrightarrow>
   Invoke nm inp parsed \<notin> set trace \<Longrightarrow>
   parseArgs cmd inputs = Inr parsed \<and> nm = name cmd \<and> inp = input \<and> run cmd \<noteq> None"
  unfolding runCommand_def by (auto split: option.splits sum.splits)

text \<open>
  Claim C5, amended. Let the input resolve to the command \<open>cmd\<close> with the argument tokens
  \<open>inputs\<close>, and let spec \<open>i\<close> of \<open>cmd\<close> be optional and beyond the tokens supplied. In
  every call of a handler that \<open>execute\<close> makes, the parsed arguments bind the name of
  spec \<open>i\<close> to \<open>undefined\<close>: the name is a key of the mapping, and no string is its value.
  The one exception is an argument named \<open>__proto__\<close>: its assignment makes no key, and the
  mapping has no key of that name.
\<close>

theorem optional_argument_undefined:
  assumes toks: "split (trim input) = t # ts" and t: "t \<noteq> []"
    and top: "find (\<lambda>(cmdName, _). cmdName = t) commands = Some (k, c0)"
    and res: "resolve c0 [] (t # ts) = Some (cmd, pre, rest)"
    and inputs: "takeArgs cmd rest = Inr inputs"
    and specs: "args cmd = Some specs"
    and i: "i < length specs" "optional (specs ! i)" "length inputs \<le> i"
    and called: "Invoke nm inp parsed \<in> set (snd (execute lc commands input))"
  shows "(if arg_name (specs ! i) = ''__proto__'' then parsed (arg_name (specs ! i)) = None
          else parsed (arg_name (specs ! i)) = Some None) \<and>
         nm = name cmd \<and> inp = trim input"
proof -
  let ?tr = "[CustomEvent (getEventName k start) (Input (trim input))]"
  have ex: "execute lc commands input =
      (case runPreChecks (preCheck cmd) of
         Some msg \<Rightarrow> (Inl (Thrown msg), ?tr)
       | None \<Rightarrow> runCommand lc (trim input) k cmd pre inputs ?tr)"
    using execute_resolved [OF toks t top res] inputs by simp
  have "runPreChecks (preCheck cmd) = None"
  proof (cases "runPreChecks (preCheck cmd)")
    case (Some msg)
    with ex called show ?thesis by simp
  qed simp
  with ex called have "Invoke nm inp parsed \<in> set (snd (runCommand lc (trim input) k cmd pre inputs ?tr))"
    by simp
  then have p: "parseArgs cmd inputs = Inr parsed \<and> nm = name cmd \<and> inp = trim input"
    using runCommand_Invoke [of nm inp parsed lc "trim input" k cmd pre inputs ?tr] by simp
  then have b: "bindArgs specs inputs 0 Map.empty = Inr parsed"
    using specs by (simp add: parseArgs_def)
  have "parsed (arg_name (specs ! i)) = Some None" if "arg_name (specs ! i) \<noteq> ''__proto__''"
    using bindArgs_undefined [where j = i and specs = specs and inputs = inputs and i = 0
        and parsedArgs = Map.empty and parsed = parsed] i that b by simp
  moreover have "parsed ''__proto__'' = None"
    using bindArgs_no_proto [OF b] by simp
  ultimately show ?thesis using p by auto
qed

lemma execute_exShow:
  "execute compareCodes [(''show'', exShow)] ''show'' =
     (Inr (Some ''show''),
      [CustomEvent ''ondidrunstartshow'' (Input ''show''),
       Invoke ''show'' ''show'' [''what'' \<mapsto> None],
       CustomEvent ''ondidrunfinishshow'' (Result ''show'')])"
  by (simp add: execute_def Let_def trim_def is_space_def exShow_def findSubcommand_def
        takeArgs_def runCommand_def parseArgs_def inputArgAt_def echoHandler_def assign_def)

theorem optional_argument_undefined_witness:
  "Invoke ''show'' ''show'' [''what'' \<mapsto> None]
     \<in> set (snd (execute compareCodes [(''show'', exShow)] ''show'')) \<and>
   [''what'' \<mapsto> (None :: string option)] (arg_name ([Arg ''what'' True] ! 0)) = Some None"
proof -
  have toks: "split (trim ''show'') = [''show'']"
    by (simp add: trim_def is_space_def)
  have top: "find (\<lambda>(cmdName, _). cmdName = ''show'') [(''show'', exShow)] = Some (''show'', exShow)"
    by simp
  have res: "resolve exShow [] [''show''] = Some (exShow, [], [])"
    by (simp add: exShow_def descend_def findSubcommand_def)
  have inputs: "takeArgs exShow [] = Inr []"
    by (simp add: takeArgs_def)
  have specs: "args exShow = Some [Arg ''what'' True]"
    by (simp add: exShow_def)
  have called: "Invoke ''show'' ''show'' [''what'' \<mapsto> None]
     \<in> set (snd (execute compareCodes [(''show'', exShow)] ''show''))"
    by (simp add: execute_exShow)
  show ?thesis
    using optional_argument_undefined [OF toks _ top res inputs specs _ _ _ called] called
    by simp
qed

text \<open>
  The claim as stated fails: on the line \<open>show\<close> the optional argument \<open>what\<close> has no
  token, and its name is a key of the mapping the handler gets.
\<close>

theorem optional_argument_undefined_counterexample:
  "args exShow = Some [Arg ''what'' True] \<and>
   execute compareCodes [(''show'', exShow)] ''show'' =
     (Inr (Some ''show''),
      [CustomEvent ''ondidrunstartshow'' (Input ''show''),
       Invoke ''show'' ''show'' [''what'' \<mapsto> None],
       CustomEvent ''ondidrunfinishshow'' (Result ''show'')]) \<and>
   ''what'' \<in> dom [''what'' \<mapsto> (None :: string option)]"
  using execute_exShow by (simp add: exShow_def)

subsection \<open>The usage block\<close>

lemma formatEntries_lines:
  "\<forall>c\<in>set cmds. length (name c) \<le> 24 \<Longrightarrow>
   formatEntries acc cmds = Inr (acc @ concat (map entryLine cmds))"
proof (induction cmds arbitrary: acc)
  case Nil
  then show ?case by simp
next
  case (Cons c cmds)
  then have "padding (length (name c)) = Inr (replicate (25 - length (name c)) CHR '' '')"
    by (simp add: padding_def)
  then show ?case using Cons by (simp add: entryLine_def)
qed

text \<open>
  The comparison function is not consistent on names that are not alphabetic: of two such
  commands each one is ordered before the other, whatever \<open>localeCompare\<close> is. And a
  command is ordered before one whose name is not alphabetic whatever its own name is.
\<close>

lemma cmdCompare_not_consistent:
  "\<not> is_letters (name a) \<Longrightarrow> \<not> is_letters (name b) \<Longrightarrow>
   cmdCompare lc a b < 0 \<and> cmdCompare lc b a < 0"
  by (simp add: cmdCompare_def)

lemma cmdCompare_before_other: "\<not> is_letters (name b) \<Longrightarrow> cmdCompare lc a b < 0"
  by (simp add: cmdCompare_def)

text \<open>
  What holds of the usage block in general. Let the input end at the command \<open>cmd\<close>, which
  has subcommands and no handler, let the precondition checks of \<open>cmd\<close> pass and let every
  child have a name of at most 24 characters. Then \<open>execute\<close> logs one usage block, calls
  no handler and returns \<open>undefined\<close> without an error, and the block lists every child
  once, one line each.
\<close>

lemma usage_lists_children:
  assumes toks: "split (trim input) = t # ts" and t: "t \<noteq> []"
    and top: "find (\<lambda>(cmdName, _). cmdName = t) commands = Some (k, c0)"
    and res: "resolve c0 [] (t # ts) = Some (cmd, pre, [])"
    and norun: "run cmd = None"
    and subs: "subcommands cmd = Some subs"
    and checks: "runPreChecks (preCheck cmd) = None"
    and short: "\<forall>c\<in>set subs. length (name c) \<le> 24"
  shows "\<exists>listing. mset listing = mset subs \<and>
     execute lc commands input =
       (Inr None,
        [CustomEvent (getEventName k start) (Input (trim input)),
         Log (usageHeader cmd pre @ concat (map entryLine listing))])"
proof -
  let ?listing = "sort_by (cmdCompare lc) subs"
  have "\<forall>c\<in>set ?listing. length (name c) \<le> 24"
    using short by (simp add: set_sort_by)
  then have "formatCmdList lc subs = Inr (concat (map entryLine ?listing))"
    unfolding formatCmdList_def using formatEntries_lines [of ?listing "[]"] by simp
  then have "usage lc cmd pre = Inr (usageHeader cmd pre @ concat (map entryLine ?listing))"
    using subs by (simp add: usage_def usageHeader_def)
  then have "runCommand lc (trim input) k cmd pre []
      [CustomEvent (getEventName k start) (Input (trim input))] =
       (Inr None,
        [CustomEvent (getEventName k start) (Input (trim input)),
         Log (usageHeader cmd pre @ concat (map entryLine ?listing))])"
    using norun by (simp add: runCommand_def)
  then have "execute lc commands input =
       (Inr None,
        [CustomEvent (getEventName k start) (Input (trim input)),
         Log (usageHeader cmd pre @ concat (map entryLine ?listing))])"
    using execute_resolved [OF toks t top res, of lc] checks by (simp add: takeArgs_def)
  then show ?thesis using mset_sort_by [of "cmdCompare lc" subs] by blast
qed

text \<open>
  The sort at work on names. A descending run is reversed (\<open>b ! a\<close>, where the name that is
  not alphabetic stays in the middle); an element after the run is put in its place by the
  binary search (\<open>a c b\<close>; \<open>a b 1\<close>, where the digit goes to the front; \<open>a ! b c\<close>).
\<close>

lemma sort_by_examples:
  "map name (sort_by (cmdCompare compareCodes) [leaf ''b'' [], leaf ''!'' [], leaf ''a'' []])
     = [''a'', ''!'', ''b'']"
  "map name (sort_by (cmdCompare compareCodes) [leaf ''a'' [], leaf ''c'' [], leaf ''b'' []])
     = [''a'', ''b'', ''c'']"
  "map name (sort_by (cmdCompare compareCodes) [leaf ''a'' [], leaf ''b'' [], leaf ''1'' []])
     = [''1'', ''a'', ''b'']"
  "map name (sort_by (cmdCompare compareCodes) [leaf ''a'' [], leaf ''!'' [], leaf ''b'' [], leaf ''c'' []])
     = [''b'', ''c'', ''!'', ''a'']"
  by (simp_all add: sort_by_def binaryInsertionSort_def insertPivot_def binarySearch.simps
        cmdCompare_def is_letters_def is_letter_def leaf_def)

lemma sort_by_a_1:
  "sort_by (cmdCompare compareCodes) [leaf ''a'' ''Letter'', leaf ''1'' ''Digit''] =
     [leaf ''1'' ''Digit'', leaf ''a'' ''Letter'']"
  "sort_by (cmdCompare compareCodes) [leaf ''1'' ''Digit'', leaf ''a'' ''Letter''] =
     [leaf ''a'' ''Letter'', leaf ''1'' ''Digit'']"
  by (simp_all add: sort_by_def binaryInsertionSort_def cmdCompare_def is_letters_def is_letter_def
        leaf_def)

text \<open>
  Claim C4: the code does not do what the claim and the comment of the code say
  (\<open>Put non-letter commands to the end\<close>, line 302). The command \<open>foo\<close> has no handler and
  the children \<open>a\<close> and \<open>1\<close>, in this order, and the input is \<open>foo\<close>. The comparison
  function looks at the name of its second argument only, so that the first comparison the
  sort makes, of \<open>1\<close> with \<open>a\<close>, is left to \<open>localeCompare\<close>, which puts the digit first (as
  does the comparison of the character codes, \<open>compareCodes\<close>): the usage block lists \<open>1\<close>
  before \<open>a\<close>. With the children in the other order the block lists \<open>a\<close> before \<open>1\<close>, so
  that the listing depends on the order the children are declared in.
\<close>

theorem usage_block_digit_first:
  "\<not> is_letters ''1'' \<and> is_letters ''a'' \<and>
   execute compareCodes [(''foo'', exMixed)] ''foo'' =
     (Inr None,
      [CustomEvent ''ondidrunstartfoo'' (Input ''foo''),
       Log (usageHeader exMixed []
            @ entryLine (leaf ''1'' ''Digit'') @ entryLine (leaf ''a'' ''Letter''))]) \<and>
   execute compareCodes [(''foo'', exMixedSwapped)] ''foo'' =
     (Inr None,
      [CustomEvent ''ondidrunstartfoo'' (Input ''foo''),
       Log (usageHeader exMixedSwapped []
            @ entryLine (leaf ''a'' ''Letter'') @ entryLine (leaf ''1'' ''Digit''))])"
proof -
  have letters: "\<not> is_letters ''1''" "is_letters ''a''"
    by (simp_all add: is_letters_def is_letter_def)
  have l1: "formatCmdList compareCodes [leaf ''a'' ''Letter'', leaf ''1'' ''Digit''] =
      Inr (entryLine (leaf ''1'' ''Digit'') @ entryLine (leaf ''a'' ''Letter''))"
    unfolding formatCmdList_def sort_by_a_1 by (simp add: padding_def entryLine_def leaf_def)
  have l2: "formatCmdList compareCodes [leaf ''1'' ''Digit'', leaf ''a'' ''Letter''] =
      Inr (entryLine (leaf ''a'' ''Letter'') @ entryLine (leaf ''1'' ''Digit''))"
    unfolding formatCmdList_def sort_by_a_1 by (simp add: padding_def entryLine_def leaf_def)
  have tr: "trim ''foo'' = ''foo''"
    by (simp add: trim_def is_space_def)
  have e1: "execute compareCodes [(''foo'', exMixed)] ''foo'' =
     (Inr None,
      [CustomEvent ''ondidrunstartfoo'' (Input ''foo''),
       Log (usageHeader exMixed []
            @ entryLine (leaf ''1'' ''Digit'') @ entryLine (leaf ''a'' ''Letter''))])"
    by (simp add: execute_def Let_def tr exMixed_def findSubcommand_def leaf_def
          takeArgs_def runCommand_def usage_def usageHeader_def l1 [unfolded leaf_def])
  have e2: "execute compareCodes [(''foo'', exMixedSwapped)] ''foo'' =
     (Inr None,
      [CustomEvent ''ondidrunstartfoo'' (Input ''foo''),
       Log (usageHeader exMixedSwapped []
            @ entryLine (leaf ''a'' ''Letter'') @ entryLine (leaf ''1'' ''Digit''))])"
    by (simp add: execute_def Let_def tr exMixedSwapped_def findSubcommand_def leaf_def
          takeArgs_def runCommand_def usage_def usageHeader_def l2 [unfolded leaf_def])
  from letters e1 e2 show ?thesis by simp
qed

section \<open>Properties of the theme manager\<close>

subsection \<open>convertToCSS\<close>

lemma bg_not_pseudo: "\<not> pseudoClassKey ''bg''" "\<not> pseudoElementKey ''bg''"
  by (simp_all add: pseudoClassKey_def pseudoElementKey_def)

lemma reduceKeys_cssRules:
  "styleBag es \<Longrightarrow> reduceKeys kebab acc es = Inr (acc @ cssRules kebab es)"
proof (induction es arbitrary: acc rule: styleBag.induct)
  case 1
  show ?case by simp
next
  case (2 key v rest)
  have rest: "reduceKeys kebab acc' rest = Inr (acc' @ cssRules kebab rest)" for acc'
    using "2.IH"(2) "2.prems" by simp
  show ?case
  proof (cases "pseudoClassKey key \<or> pseudoElementKey key")
    case True
    then have nobg: "key \<noteq> ''bg''" using bg_not_pseudo by auto
    from True "2.prems" obtain nested where v: "v = Obj nested" and n: "styleBag nested"
      by (cases v) simp_all
    have nest: "convertToCSS kebab v = Inr (cssRules kebab nested)"
      using "2.IH"(1) [OF True v n, of "[]"] v by simp
    show ?thesis
    proof (cases "pseudoClassKey key")
      case True
      then show ?thesis using nobg nest rest v by simp
    next
      case False
      with \<open>pseudoClassKey key \<or> pseudoElementKey key\<close> have "pseudoElementKey key" by simp
      then show ?thesis using False nobg nest rest v by simp
    qed
  next
    case False
    show ?thesis
    proof (cases "key = ''bg''")
      case True
      then show ?thesis
        using False rest by (cases v) (simp_all add: cssDeclaration_def bg_not_pseudo)
    next
      case bg: False
      then show ?thesis
        using False rest by (cases v) (simp_all add: cssDeclaration_def)
    qed
  qed
qed

text \<open>
  Numbers are printed as a template literal prints them: \<open>4\<close>, \<open>0.5\<close>, \<open>1e+21\<close> for 1e21,
  \<open>1.5e-7\<close>, \<open>-12.5\<close>, \<open>1200\<close>, \<open>0\<close> for both zeros, \<open>Infinity\<close> and \<open>NaN\<close>.
\<close>

lemma numberToString_examples:
  "numberToString (Finite False 4 1) = ''4''"
  "numberToString (Finite False 5 0) = ''0.5''"
  "numberToString (Finite False 1 22) = ''1e+21''"
  "numberToString (Finite False 15 (- 6)) = ''1.5e-7''"
  "numberToString (Finite True 125 2) = ''-12.5''"
  "numberToString (Finite False 12 4) = ''1200''"
  "numberToString (Finite True 0 0) = ''0''"
  "numberToString (Infinite False) = ''Infinity''"
  "numberToString NotANumber = ''NaN''"
  by code_simp+

lemma cssDeclaration_number:
  "cssDeclaration prop (Num n) = prop @ '':'' @ numberToString n @ '';''"
  by (simp add: cssDeclaration_def)

text \<open>
  Claim C6. For every style-property bag and every conversion of the keys, \<open>convertToCSS\<close>
  returns the text made of the rules of its keys in order: \<open>bg\<close> gives the property
  \<open>background\<close>; \<open>hover\<close>, \<open>active\<close>, \<open>focus\<close> and \<open>focusWithin\<close> give the nested rules in a
  \<open>&:\<close> block and \<open>before\<close> and \<open>after\<close> in a \<open>&::\<close> block; every other key gives
  \<open>property:value;\<close> with the converted key when the value is a string or a number, and
  nothing otherwise. With a conversion that leaves \<open>hover\<close> and \<open>color\<close> as they are, the
  bag with \<open>bg\<close> red and \<open>hover\<close> holding \<open>color\<close> blue gives
  \<open>background:red;&:hover{color:blue;}\<close>.
\<close>

theorem convertToCSS_rules:
  "(styleBag component \<longrightarrow>
      convertToCSS kebab (Obj component) = Inr (cssRules kebab component)) \<and>
   (kebab ''hover'' = ''hover'' \<and> kebab ''color'' = ''color'' \<longrightarrow>
      convertToCSS kebab (Obj [(''bg'', Str ''red''), (''hover'', Obj [(''color'', Str ''blue'')])])
        = Inr ''background:red;&:hover{color:blue;}'')"
proof (intro conjI impI)
  assume "styleBag component"
  then show "convertToCSS kebab (Obj component) = Inr (cssRules kebab component)"
    using reduceKeys_cssRules [of component kebab "[]"] by simp
next
  assume k: "kebab ''hover'' = ''hover'' \<and> kebab ''color'' = ''color''"
  have inner: "convertToCSS kebab (Obj [(''color'', Str ''blue'')]) = Inr ''color:blue;''"
    using k by (simp add: pseudoClassKey_def pseudoElementKey_def cssDeclaration_def)
  show "convertToCSS kebab (Obj [(''bg'', Str ''red''), (''hover'', Obj [(''color'', Str ''blue'')])])
        = Inr ''background:red;&:hover{color:blue;}''"
    using k inner by (simp add: pseudoClassKey_def pseudoElementKey_def cssDeclaration_def)
qed

theorem convertToCSS_rules_witness:
  "styleBag [(''bg'', Str ''red''),
             (''focusWithin'', Obj [(''borderRadius'', Num (Finite False 4 1))]),
             (''opacity'', Num (Finite False 5 0)), (''zIndex'', Num (Finite False 1 22)),
             (''after'', Obj []), (''custom'', Bool True)] \<and>
   convertToCSS toKebabFromCamel
     (Obj [(''bg'', Str ''red''),
           (''focusWithin'', Obj [(''borderRadius'', Num (Finite False 4 1))]),
           (''opacity'', Num (Finite False 5 0)), (''zIndex'', Num (Finite False 1 22)),
           (''after'', Obj []), (''custom'', Bool True)])
     = Inr ''background:red;&:focus-within{border-radius:4;}opacity:0.5;z-index:1e+21;&::after{}'' \<and>
   toKebabFromCamel ''hover'' = ''hover'' \<and> toKebabFromCamel ''color'' = ''color'' \<and>
   convertToCSS toKebabFromCamel
     (Obj [(''bg'', Str ''red''), (''hover'', Obj [(''color'', Str ''blue'')])])
     = Inr ''background:red;&:hover{color:blue;}''"
proof -
  have bag: "styleBag [(''bg'', Str ''red''),
             (''focusWithin'', Obj [(''borderRadius'', Num (Finite False 4 1))]),
             (''opacity'', Num (Finite False 5 0)), (''zIndex'', Num (Finite False 1 22)),
             (''after'', Obj []), (''custom'', Bool True)]"
    by (simp add: pseudoClassKey_def pseudoElementKey_def)
  have keb: "toKebabFromCamel ''hover'' = ''hover'' \<and> toKebabFromCamel ''color'' = ''color''"
    by (simp add: isUpper_def)
  have rules: "cssRules toKebabFromCamel
      [(''bg'', Str ''red''),
       (''focusWithin'', Obj [(''borderRadius'', Num (Finite False 4 1))]),
       (''opacity'', Num (Finite False 5 0)), (''zIndex'', Num (Finite False 1 22)),
       (''after'', Obj []), (''custom'', Bool True)]
     = ''background:red;&:focus-within{border-radius:4;}opacity:0.5;z-index:1e+21;&::after{}''"
    by code_simp
  show ?thesis
    using convertToCSS_rules [of "[(''bg'', Str ''red''),
             (''focusWithin'', Obj [(''borderRadius'', Num (Finite False 4 1))]),
             (''opacity'', Num (Finite False 5 0)), (''zIndex'', Num (Finite False 1 22)),
             (''after'', Obj []), (''custom'', Bool True)]" toKebabFromCamel] bag keb rules
    by simp
qed

subsection \<open>Reading and writing paths\<close>

lemma related_Nil2 [simp]: "related p []"
  by (cases p) simp_all

lemma related_sym: "related p q = related q p"
  by (induction p q rule: related.induct) auto

lemma related_cases:
  "related p q \<Longrightarrow> (\<exists>r. q = p @ r) \<or> (\<exists>r. p = q @ r)"
  by (induction p q rule: related.induct) auto

lemma related_append: "related p (p @ r)" "related (p @ r) p"
  by (induction p) simp_all

lemma map_of_setKey: "map_of (setKey k x es) a = (if a = k then Some x else map_of es a)"
  by (induction es) auto

lemma setKey_idem: "setKey k x (setKey k x es) = setKey k x es"
  by (induction es) auto

lemma setProp_Inr: "setProp t k x = Inr t' \<Longrightarrow> \<exists>es. t = Obj es \<and> t' = Obj (setKey k x es)"
  by (cases t) simp_all

lemma getProp_setKey:
  "getProp (Obj (setKey k x es)) a = (if a = k then Inr x else getProp (Obj es) a)"
  by (simp add: map_of_setKey)

text \<open>After a write the path holds the value written.\<close>

lemma getPath_setPath_same: "setPath t q x = Inr t' \<Longrightarrow> getPath t' q = Inr x"
proof (induction t q x arbitrary: t' rule: setPath.induct)
  case (1 v x)
  then show ?case by simp
next
  case (2 v key x)
  then obtain es where "v = Obj es" "t' = Obj (setKey key x es)"
    using setProp_Inr by fastforce
  then show ?case by (simp add: map_of_setKey)
next
  case (3 v key k2 path x)
  from "3.prems" obtain child child' where
    c: "getProp v key = Inr child" "setPath child (k2 # path) x = Inr child'"
       "setProp v key child' = Inr t'"
    by (auto split: sum.splits)
  then obtain es where es: "v = Obj es" "t' = Obj (setKey key child' es)"
    using setProp_Inr by blast
  have g: "getPath child' (k2 # path) = Inr x"
    using "3.IH" c(1,2) by simp
  have gp: "getProp t' key = Inr child'"
    using es by (simp add: map_of_setKey)
  have step: "getPath t' (key # k2 # path) = getPath child' (k2 # path)"
    by (subst getPath.simps(2)) (simp add: gp)
  show ?case unfolding step by (rule g)
qed

text \<open>A write leaves unrelated paths as they are.\<close>

lemma getPath_setPath_other:
  "setPath t q x = Inr t' \<Longrightarrow> \<not> related p q \<Longrightarrow> getPath t' p = getPath t p"
proof (induction t q x arbitrary: t' p rule: setPath.induct)
  case (1 v x)
  then show ?case by simp
next
  case (2 v key x)
  then obtain es where es: "v = Obj es" "t' = Obj (setKey key x es)"
    using setProp_Inr by fastforce
  from "2.prems"(2) obtain a p' where p: "p = a # p'" "a \<noteq> key"
    by (cases p) auto
  then show ?case using es by (simp add: map_of_setKey)
next
  case (3 v key k2 path x)
  from "3.prems" obtain child child' where
    c: "getProp v key = Inr child" "setPath child (k2 # path) x = Inr child'"
       "setProp v key child' = Inr t'"
    by (auto split: sum.splits)
  then obtain es where es: "v = Obj es" "t' = Obj (setKey key child' es)"
    using setProp_Inr by blast
  from "3.prems"(2) obtain a p' where p: "p = a # p'" by (cases p) auto
  show ?case
  proof (cases "a = key")
    case True
    then have nr: "\<not> related p' (k2 # path)" using "3.prems"(2) p by simp
    have "getPath child' p' = getPath child p'"
      using "3.IH" [OF c(1) c(2) nr] .
    then show ?thesis using es p True c(1) by (simp add: map_of_setKey)
  next
    case False
    then show ?thesis using es p by (simp add: map_of_setKey)
  qed
qed

text \<open>Writing the same value again changes nothing.\<close>

lemma setPath_idem: "setPath t q x = Inr t' \<Longrightarrow> setPath t' q x = Inr t'"
proof (induction t q x arbitrary: t' rule: setPath.induct)
  case (1 v x)
  then show ?case by simp
next
  case (2 v key x)
  then obtain es where "v = Obj es" "t' = Obj (setKey key x es)"
    using setProp_Inr by fastforce
  then show ?case by (simp add: setKey_idem)
next
  case (3 v key k2 path x)
  from "3.prems" obtain child child' where
    c: "getProp v key = Inr child" "setPath child (k2 # path) x = Inr child'"
       "setProp v key child' = Inr t'"
    by (auto split: sum.splits)
  then obtain es where es: "v = Obj es" "t' = Obj (setKey key child' es)"
    using setProp_Inr by blast
  have "setPath child' (k2 # path) x = Inr child'"
    using "3.IH" c(1,2) by simp
  then show ?case using es by (simp add: map_of_setKey setKey_idem)
qed

text \<open>The values on the way to a written path are objects, before and after.\<close>

lemma setPath_through_before:
  "setPath t (q @ r) x = Inr t' \<Longrightarrow> r \<noteq> [] \<Longrightarrow> \<exists>es. getPath t q = Inr (Obj es)"
proof (induction q arbitrary: t t')
  case Nil
  then obtain k r' where r: "r = k # r'" by (cases r) auto
  show ?case
  proof (cases r')
    case Nil
    then show ?thesis using Nil.prems r setProp_Inr by fastforce
  next
    case (Cons k2 r'')
    then have "\<exists>child'. setProp t k child' = Inr t'"
      using Nil.prems r by (auto split: sum.splits)
    then show ?thesis using setProp_Inr by fastforce
  qed
next
  case (Cons k q)
  obtain k2 rest where kr: "q @ r = k2 # rest" using Cons.prems(2) by (cases "q @ r") auto
  from Cons.prems kr obtain child child' where
    c: "getProp t k = Inr child" "setPath child (q @ r) x = Inr child'"
    by (auto split: sum.splits)
  from Cons.IH [OF c(2) Cons.prems(2)] c(1) show ?case by simp
qed

lemma setPath_through_after:
  "setPath t (q @ r) x = Inr t' \<Longrightarrow> r \<noteq> [] \<Longrightarrow> \<exists>es. getPath t' q = Inr (Obj es)"
proof (induction q arbitrary: t t')
  case Nil
  then obtain k r' where r: "r = k # r'" by (cases r) auto
  show ?case
  proof (cases r')
    case Nil
    then show ?thesis using Nil.prems r setProp_Inr by fastforce
  next
    case (Cons k2 r'')
    then have "\<exists>child'. setProp t k child' = Inr t'"
      using Nil.prems r by (auto split: sum.splits)
    then show ?thesis using setProp_Inr by fastforce
  qed
next
  case (Cons k q)
  obtain k2 rest where kr: "q @ r = k2 # rest" using Cons.prems(2) by (cases "q @ r") auto
  from Cons.prems kr obtain child child' where
    c: "getProp t k = Inr child" "setPath child (q @ r) x = Inr child'"
      "setProp t k child' = Inr t'"
    by (auto split: sum.splits)
  then obtain es where es: "t = Obj es" "t' = Obj (setKey k child' es)"
    using setProp_Inr by blast
  from Cons.IH [OF c(2) Cons.prems(2)] es show ?case by (simp add: map_of_setKey)
qed

text \<open>Reading below a value that is not an object gives nothing defined.\<close>

lemma getPath_below:
  "getPath t q = Inr cur \<Longrightarrow> (\<And>es. cur \<noteq> Obj es) \<Longrightarrow> r \<noteq> [] \<Longrightarrow>
   getPath t (q @ r) = Inl TypeError \<or> getPath t (q @ r) = Inr Undefined"
proof (induction q arbitrary: t)
  case Nil
  then obtain k r' where r: "r = k # r'" by (cases r) auto
  have "getProp cur k = Inl TypeError \<or> getProp cur k = Inr Undefined"
    using Nil.prems(2) by (cases cur) auto
  moreover have "getPath Undefined r' = Inl TypeError \<or> getPath Undefined r' = Inr Undefined"
    by (cases r') auto
  ultimately show ?case using Nil.prems(1) r by auto
next
  case (Cons k q)
  then show ?case by (auto split: sum.splits)
qed

lemma exec_alt:
  "exec env font s theme =
     (case getPath theme (target s) of
        Inl err \<Rightarrow> Inl err
      | Inr current \<Rightarrow>
          if \<not> assigns s current then Inr theme
          else (case evaluate env font theme (source s) of
                  Inl err \<Rightarrow> Inl err
                | Inr x \<Rightarrow> setPath theme (target s) x))"
  by (cases s) (auto split: sum.splits)

lemma assigns_not_Obj: "assigns s (Obj es) = False"
  by (cases s) simp_all

lemma assigns_Undefined: "assigns s Undefined"
  by (cases s) simp_all

lemma setPath_Cons:
  "setPath t (a # q) x = Inr t' \<Longrightarrow>
   \<exists>es y. t = Obj es \<and> t' = Obj (setKey a y es) \<and>
     ((q = [] \<and> y = x) \<or>
      (q \<noteq> [] \<and> (\<exists>child. getProp t a = Inr child \<and> setPath child q x = Inr y)))"
proof (cases q)
  case Nil
  assume "setPath t (a # q) x = Inr t'"
  then show ?thesis using Nil setProp_Inr by fastforce
next
  case (Cons k2 q')
  assume "setPath t (a # q) x = Inr t'"
  then obtain child child' where
    c: "getProp t a = Inr child" "setPath child (k2 # q') x = Inr child'"
       "setProp t a child' = Inr t'"
    using Cons by (auto split: sum.splits)
  then obtain es where "t = Obj es" "t' = Obj (setKey a child' es)"
    using setProp_Inr by blast
  then show ?thesis using c Cons by auto
qed

lemma setKey_fixed_other:
  "setKey k x es = es \<Longrightarrow> a \<noteq> k \<Longrightarrow> setKey k x (setKey a y es) = setKey a y es"
  by (induction es) (auto split: if_splits)

lemma setKey_fixed_lookup: "setKey k x es = es \<Longrightarrow> map_of es k = Some x"
  by (induction es) (auto split: if_splits)

text \<open>A write that changes nothing still changes nothing after a write elsewhere.\<close>

lemma setPath_fixed_other:
  "setPath u q x = Inr u \<Longrightarrow> setPath u q2 x2 = Inr u2 \<Longrightarrow> \<not> related q q2 \<Longrightarrow>
   setPath u2 q x = Inr u2"
proof (induction u q x arbitrary: q2 u2 rule: setPath.induct)
  case (1 v x)
  then show ?case by simp
next
  case (2 v key x)
  from "2.prems"(3) obtain a q2' where q2: "q2 = a # q2'" "a \<noteq> key"
    by (cases q2) auto
  from "2.prems"(2) q2 obtain es y where es: "v = Obj es" "u2 = Obj (setKey a y es)"
    using setPath_Cons by blast
  have "setKey key x es = es" using "2.prems"(1) es by simp
  then show ?case using es q2 by (simp add: setKey_fixed_other)
next
  case (3 v key k2 path x)
  from "3.prems"(1) obtain child child' where
    c: "getProp v key = Inr child" "setPath child (k2 # path) x = Inr child'"
       "setProp v key child' = Inr v"
    by (auto split: sum.splits)
  then obtain es where es: "v = Obj es" "setKey key child' es = es"
    using setProp_Inr by fastforce
  have "map_of es key = Some child'" using es(2) by (rule setKey_fixed_lookup)
  then have same: "child' = child" using c(1) es(1) by simp
  from "3.prems"(3) obtain a q2' where q2: "q2 = a # q2'" by (cases q2) auto
  from "3.prems"(2) q2 obtain es2 y where
    y: "v = Obj es2" "u2 = Obj (setKey a y es2)"
       "(q2' = [] \<and> y = x2) \<or>
        (q2' \<noteq> [] \<and> (\<exists>ch. getProp v a = Inr ch \<and> setPath ch q2' x2 = Inr y))"
    using setPath_Cons by blast
  have es2: "es2 = es" using y(1) es(1) by simp
  show ?case
  proof (cases "a = key")
    case False
    have gp: "getProp u2 key = Inr child"
      using y(2) es2 False c(1) es(1) by (simp add: map_of_setKey)
    have sp: "setProp u2 key child = Inr u2"
      using y(2) es2 es(2) same False by (simp add: setKey_fixed_other)
    show ?thesis
      using gp c(2) same sp by simp
  next
    case True
    then have nr: "\<not> related (k2 # path) q2'" using "3.prems"(3) q2 by simp
    then have "q2' \<noteq> []" by auto
    with y(3) True c(1) have sy: "setPath child q2' x2 = Inr y" by auto
    have fixed: "setPath child (k2 # path) x = Inr child" using c(2) same by simp
    have ih: "setPath y (k2 # path) x = Inr y"
      using "3.IH" [OF c(1) fixed sy nr] .
    have gp: "getProp u2 key = Inr y"
      using y(2) True by (simp add: map_of_setKey)
    have sp: "setProp u2 key y = Inr u2"
      using y(2) True by (simp add: setKey_idem)
    show ?thesis using gp ih sp by simp
  qed
qed

text \<open>Optional chains, and the value of an expression, after a write elsewhere.\<close>

lemma getOptional_setPath_other:
  "setPath t q x = Inr t' \<Longrightarrow> \<not> related l q \<Longrightarrow> getOptional t' l = getOptional t l"
proof (induction t q x arbitrary: t' l rule: setPath.induct)
  case (1 v x)
  then show ?case by simp
next
  case (2 v key x)
  then obtain es where es: "v = Obj es" "t' = Obj (setKey key x es)"
    using setProp_Inr by fastforce
  from "2.prems"(2) obtain a l' where l: "l = a # l'" "a \<noteq> key"
    by (cases l) auto
  then show ?case using es by (simp add: map_of_setKey)
next
  case (3 v key k2 path x)
  from "3.prems" obtain child child' where
    c: "getProp v key = Inr child" "setPath child (k2 # path) x = Inr child'"
       "setProp v key child' = Inr t'"
    by (auto split: sum.splits)
  then obtain es where es: "v = Obj es" "t' = Obj (setKey key child' es)"
    using setProp_Inr by blast
  from "3.prems"(2) obtain a l' where l: "l = a # l'" by (cases l) auto
  show ?case
  proof (cases "a = key")
    case True
    then have nr: "\<not> related l' (k2 # path)" using "3.prems"(2) l by simp
    have "getOptional child' l' = getOptional child l'"
      using "3.IH" [OF c(1) c(2) nr] .
    then show ?thesis using es l True c(1) by (simp add: map_of_setKey)
  next
    case False
    then show ?thesis using es l by (simp add: map_of_setKey)
  qed
qed

lemma optRef_setPath_other:
  "setPath t q x = Inr t' \<Longrightarrow> \<not> related (p @ l) q \<Longrightarrow>
   (case getPath t' p of Inl e \<Rightarrow> Inl e | Inr v \<Rightarrow> Inr (getOptional v l)) =
   (case getPath t p of Inl e \<Rightarrow> Inl e | Inr v \<Rightarrow> Inr (getOptional v l))"
proof (induction t q x arbitrary: t' p rule: setPath.induct)
  case (1 v x)
  then show ?case by simp
next
  case (2 v key x)
  show ?case
  proof (cases p)
    case Nil
    then show ?thesis using getOptional_setPath_other [OF "2.prems"(1)] "2.prems"(2) by simp
  next
    case (Cons b p')
    then have "b \<noteq> key" using "2.prems"(2) by auto
    moreover obtain es where "v = Obj es" "t' = Obj (setKey key x es)"
      using "2.prems"(1) setProp_Inr by fastforce
    ultimately show ?thesis using Cons by (simp add: map_of_setKey)
  qed
next
  case (3 v key k2 path x)
  show ?case
  proof (cases p)
    case Nil
    then show ?thesis using getOptional_setPath_other [OF "3.prems"(1)] "3.prems"(2) by simp
  next
    case (Cons b p')
    from "3.prems" obtain child child' where
      c: "getProp v key = Inr child" "setPath child (k2 # path) x = Inr child'"
         "setProp v key child' = Inr t'"
      by (auto split: sum.splits)
    then obtain es where es: "v = Obj es" "t' = Obj (setKey key child' es)"
      using setProp_Inr by blast
    show ?thesis
    proof (cases "b = key")
      case True
      then have nr: "\<not> related (p' @ l) (k2 # path)" using "3.prems"(2) Cons by simp
      have "(case getPath child' p' of Inl e \<Rightarrow> Inl e | Inr v \<Rightarrow> Inr (getOptional v l)) =
            (case getPath child p' of Inl e \<Rightarrow> Inl e | Inr v \<Rightarrow> Inr (getOptional v l))"
        using "3.IH" [OF c(1) c(2) nr] .
      then show ?thesis using es Cons True c(1) by (simp add: map_of_setKey)
    next
      case False
      then show ?thesis using es Cons by (simp add: map_of_setKey)
    qed
  qed
qed

lemma evaluate_setPath_other:
  "setPath t q x = Inr t' \<Longrightarrow> (\<forall>p\<in>set (reads e). \<not> related p q) \<Longrightarrow>
   evaluate env font t' e = evaluate env font t e"
  "setPath t q x = Inr t' \<Longrightarrow> (\<forall>p\<in>set (readsAll es). \<not> related p q) \<Longrightarrow>
   evalAll env font t' es = evalAll env font t es"
proof (induction e and es rule: reads_readsAll.induct)
  case (4 path)
  then show ?case using getPath_setPath_other [of t q x t' path] by simp
next
  case (5 path links)
  then show ?case using optRef_setPath_other [of t q x t' path links] by simp
qed (auto split: sum.splits)

subsection \<open>Filling twice\<close>

lemma exec_idem:
  assumes ex: "exec env font s t = Inr t1"
    and fr: "\<forall>p\<in>set (reads (source s)). \<not> related p (target s)"
  shows "exec env font s t1 = Inr t1"
proof -
  from ex obtain cur where cur: "getPath t (target s) = Inr cur"
    unfolding exec_alt by (auto split: sum.splits)
  show ?thesis
  proof (cases "assigns s cur")
    case False
    then have "t1 = t" using ex cur unfolding exec_alt by simp
    then show ?thesis using ex by simp
  next
    case True
    then obtain x where x: "evaluate env font t (source s) = Inr x"
        "setPath t (target s) x = Inr t1"
      using ex cur unfolding exec_alt by (auto split: sum.splits)
    have g: "getPath t1 (target s) = Inr x" using x(2) by (rule getPath_setPath_same)
    have e: "evaluate env font t1 (source s) = Inr x"
      using evaluate_setPath_other(1) [OF x(2) fr] x(1) by simp
    have w: "setPath t1 (target s) x = Inr t1" using x(2) by (rule setPath_idem)
    show ?thesis unfolding exec_alt using g e w by simp
  qed
qed

lemma settled_preserved:
  assumes st: "exec env font s u = Inr u"
    and s2: "exec env font s2 u = Inr u2"
    and fr: "\<forall>p\<in>set (reads (source s)). \<not> related p (target s2)"
    and df: "isIfFalsy s \<or> isIfFalsy s2 \<longrightarrow> target s \<noteq> target s2"
  shows "exec env font s u2 = Inr u2"
proof -
  from s2 obtain cur2 where cur2: "getPath u (target s2) = Inr cur2"
    unfolding exec_alt by (auto split: sum.splits)
  from st obtain cur where cur: "getPath u (target s) = Inr cur"
    unfolding exec_alt by (auto split: sum.splits)
  show ?thesis
  proof (cases "assigns s2 cur2")
    case False
    then have "u2 = u" using s2 cur2 unfolding exec_alt by simp
    then show ?thesis using st by simp
  next
    case a2: True
    then obtain x2 where x2: "evaluate env font u (source s2) = Inr x2"
        and w: "setPath u (target s2) x2 = Inr u2"
      using s2 cur2 unfolding exec_alt by (auto split: sum.splits)
    have notobj2: "\<And>es. cur2 \<noteq> Obj es" using a2 assigns_not_Obj by auto
    have ev: "evaluate env font u2 (source s) = evaluate env font u (source s)"
      using evaluate_setPath_other(1) [OF w fr] .
    have B: "\<exists>x. evaluate env font u (source s) = Inr x \<and> setPath u (target s) x = Inr u \<and> cur = x"
      if "assigns s cur"
    proof -
      from that obtain x where x: "evaluate env font u (source s) = Inr x"
        "setPath u (target s) x = Inr u"
        using st cur unfolding exec_alt by (auto split: sum.splits)
      have "getPath u (target s) = Inr x" using x(2) by (rule getPath_setPath_same)
      with cur x show ?thesis by simp
    qed
    show ?thesis
    proof (cases "related (target s) (target s2)")
      case False
      have g: "getPath u2 (target s) = Inr cur"
        using getPath_setPath_other [OF w False] cur by simp
      show ?thesis
      proof (cases "assigns s cur")
        case False
        then show ?thesis unfolding exec_alt using g by simp
      next
        case True
        from B [OF True] obtain x where x: "evaluate env font u (source s) = Inr x"
          "setPath u (target s) x = Inr u" by blast
        have "setPath u2 (target s) x = Inr u2"
          using setPath_fixed_other [OF x(2) w False] .
        then show ?thesis unfolding exec_alt using g ev x(1) by simp
      qed
    next
      case True
      then consider (below) r where "target s2 = target s @ r" "r \<noteq> []"
        | (above) r where "target s = target s2 @ r" "r \<noteq> []"
        | (same) "target s = target s2"
        using related_cases [of "target s" "target s2"] by (metis append_Nil2)
      then show ?thesis
      proof cases
        case below
        from setPath_through_before [of u "target s" r x2 u2] w below
        obtain es where "getPath u (target s) = Inr (Obj es)" by auto
        from setPath_through_after [of u "target s" r x2 u2] w below
        obtain es' where "getPath u2 (target s) = Inr (Obj es')" by auto
        then show ?thesis unfolding exec_alt by (simp add: assigns_not_Obj)
      next
        case above
        have "getPath u (target s) = Inl TypeError \<or> getPath u (target s) = Inr Undefined"
          using getPath_below [OF cur2 notobj2 above(2)] above(1) by simp
        with cur have "cur = Undefined" by simp
        then have "assigns s cur" by (simp add: assigns_Undefined)
        from B [OF this] obtain x where "setPath u (target s) x = Inr u" by blast
        then have "\<exists>es. getPath u (target s2) = Inr (Obj es)"
          using setPath_through_before [of u "target s2" r x u] above by simp
        with cur2 notobj2 show ?thesis by auto
      next
        case same
        with df have d: "\<not> isIfFalsy s" "\<not> isIfFalsy s2" by auto
        have c2: "cur2 = Undefined" using a2 d(2) by (cases s2) simp_all
        have c: "cur = Undefined" using cur cur2 same c2 by simp
        then have "assigns s cur" by (simp add: assigns_Undefined)
        from B [OF this] c obtain x where x: "evaluate env font u (source s) = Inr Undefined"
          "setPath u (target s) Undefined = Inr u" by blast
        have g: "getPath u2 (target s) = Inr x2"
          using getPath_setPath_same [OF w] same by simp
        show ?thesis
        proof (cases "x2 = Undefined")
          case True
          have "setPath u2 (target s) Undefined = Inr u2"
            using setPath_idem [OF w] True same by simp
          then show ?thesis unfolding exec_alt using g ev x(1) True by simp
        next
          case False
          then have "\<not> assigns s x2" using d(1) by (cases s) simp_all
          then show ?thesis unfolding exec_alt using g by simp
        qed
      qed
    qed
  qed
qed

lemma execAll_settled:
  "exec env font s u = Inr u \<Longrightarrow> execAll env font ss u = Inr u' \<Longrightarrow>
   \<forall>s2\<in>set ss. (\<forall>p\<in>set (reads (source s)). \<not> related p (target s2)) \<and>
                (isIfFalsy s \<or> isIfFalsy s2 \<longrightarrow> target s \<noteq> target s2) \<Longrightarrow>
   exec env font s u' = Inr u'"
proof (induction ss arbitrary: u)
  case Nil
  then show ?case by simp
next
  case (Cons s2 ss)
  from Cons.prems(2) obtain u2 where u2: "exec env font s2 u = Inr u2"
      "execAll env font ss u2 = Inr u'"
    by (auto split: sum.splits)
  have "exec env font s u2 = Inr u2"
    using settled_preserved [OF Cons.prems(1) u2(1)] Cons.prems(3) by simp
  then show ?case using Cons.IH [OF _ u2(2)] Cons.prems(3) by simp
qed

lemma execAll_idem:
  "independent ss \<Longrightarrow> execAll env font ss t = Inr t' \<Longrightarrow> execAll env font ss t' = Inr t'"
proof (induction ss arbitrary: t)
  case Nil
  then show ?case by simp
next
  case (Cons s ss)
  from Cons.prems(2) obtain t1 where t1: "exec env font s t = Inr t1"
      "execAll env font ss t1 = Inr t'"
    by (auto split: sum.splits)
  have fr: "\<forall>p\<in>set (reads (source s)). \<not> related p (target s)"
    using Cons.prems(1) by (simp add: list_all_iff)
  have later: "\<forall>s2\<in>set ss. (\<forall>p\<in>set (reads (source s)). \<not> related p (target s2)) \<and>
                (isIfFalsy s \<or> isIfFalsy s2 \<longrightarrow> target s \<noteq> target s2)"
    using Cons.prems(1) by (simp add: list_all_iff)
  have "exec env font s t1 = Inr t1" using exec_idem [OF t1(1) fr] .
  then have "exec env font s t' = Inr t'" using execAll_settled [OF _ t1(2) later] by simp
  moreover have "execAll env font ss t' = Inr t'"
    using Cons.IH [OF _ t1(2)] Cons.prems(1) by simp
  ultimately show ?case by simp
qed

subsection \<open>The dependency order of the defaults\<close>

lemma independent_append:
  "independent xs \<Longrightarrow> independent ys \<Longrightarrow> apart xs ys \<Longrightarrow> independent (xs @ ys)"
proof (induction xs)
  case Nil
  then show ?case by simp
next
  case (Cons s xs)
  have ap: "apart xs ys" using Cons.prems(3) by (simp add: apart_def)
  have ih: "independent (xs @ ys)"
    using Cons.IH [OF _ Cons.prems(2) ap] Cons.prems(1) by simp
  have here: "\<forall>s2\<in>set ys.
        (\<forall>p\<in>set (reads (source s)). \<not> related p (target s2)) \<and>
        (isIfFalsy s \<or> isIfFalsy s2 \<longrightarrow> target s \<noteq> target s2)"
    using Cons.prems(3) by (simp add: apart_def)
  show ?case
    using Cons.prems(1) ih here by (auto simp: list_all_iff)
qed

lemma independent_readsClear:
  "readsClear ss \<Longrightarrow> list_all (\<lambda>s. \<not> isIfFalsy s) ss \<Longrightarrow> independent ss"
  by (induction ss) (auto simp: list_all_iff)

lemma independent_single: "readsClear [s] \<Longrightarrow> independent [s]"
  by simp

lemma blockOk_independent: "blockOk (c, b) \<Longrightarrow> independent b"
proof -
  assume ok: "blockOk (c, b)"
  then have rc: "readsClear b" by (simp add: blockOk_def)
  from ok consider "list_all (\<lambda>s. \<not> isIfFalsy s) b" | "length b = 1"
    by (auto simp: blockOk_def)
  then show ?thesis
  proof cases
    case 1
    with rc show ?thesis by (rule independent_readsClear)
  next
    case 2
    then obtain s where "b = [s]" by (cases b) auto
    with rc show ?thesis using independent_single by simp
  qed
qed

lemma unrelated_under: "\<not> related p c \<Longrightarrow> \<not> related p (c @ r)"
  by (induction p c rule: related.induct) auto

lemma under_target: "under c b \<Longrightarrow> s \<in> set b \<Longrightarrow> \<exists>r. target s = c @ r"
  unfolding under_def list_all_iff by (metis append_take_drop_id)

lemma related_refl: "related p p"
  by (induction p) simp_all

lemma apart_blocks:
  assumes u1: "under c b" and u2: "under c2 b2"
    and rd: "list_all (\<lambda>p. \<not> related p c2) (blockReads b)"
    and fl: "(list_ex isIfFalsy b \<or> list_ex isIfFalsy b2) \<longrightarrow> \<not> related c c2"
  shows "apart b b2"
  unfolding apart_def
proof (intro ballI conjI impI)
  fix s s2 p
  assume s: "s \<in> set b" and s2: "s2 \<in> set b2" and p: "p \<in> set (reads (source s))"
  from under_target [OF u2 s2] obtain r where r: "target s2 = c2 @ r" by blast
  have "p \<in> set (blockReads b)" using s p by (auto simp: blockReads_def)
  then have "\<not> related p c2" using rd by (simp add: list_all_iff)
  then show "\<not> related p (target s2)" unfolding r by (rule unrelated_under)
next
  fix s s2
  assume s: "s \<in> set b" and s2: "s2 \<in> set b2" and f: "isIfFalsy s \<or> isIfFalsy s2"
  from under_target [OF u2 s2] obtain r2 where r2: "target s2 = c2 @ r2" by blast
  from under_target [OF u1 s] obtain r1 where r1: "target s = c @ r1" by blast
  have "list_ex isIfFalsy b \<or> list_ex isIfFalsy b2"
    using f s s2 by (auto simp: list_ex_iff)
  with fl have nr: "\<not> related c c2" by simp
  show "target s \<noteq> target s2"
  proof
    assume eq: "target s = target s2"
    have "\<not> related c (c2 @ r2)" using nr by (rule unrelated_under)
    then have "\<not> related (c2 @ r2) c" by (simp add: related_sym)
    then have "\<not> related (c2 @ r2) (c @ r1)" by (rule unrelated_under)
    with eq r1 r2 related_refl show False by metis
  qed
qed

lemma apart_concat:
  "(\<forall>b2\<in>set bs. apart b b2) \<Longrightarrow> apart b (concat bs)"
  by (auto simp: apart_def)

lemma blocks_independent:
  "list_all blockOk bs \<Longrightarrow> clearAfter (map summary bs) \<Longrightarrow> independent (concat (map snd bs))"
proof (induction bs)
  case Nil
  then show ?case by simp
next
  case (Cons cb bs)
  obtain c b where cb: "cb = (c, b)" by (cases cb)
  have ok: "blockOk (c, b)" and oks: "list_all blockOk bs"
    using Cons.prems(1) cb by simp_all
  have sm: "map summary (cb # bs) = (c, blockReads b, list_ex isIfFalsy b) # map summary bs"
    by (simp add: cb summary_def)
  have both: "list_all (\<lambda>(c2, rs2, f2). list_all (\<lambda>p. \<not> related p c2) (blockReads b) \<and>
                  ((list_ex isIfFalsy b \<or> f2) \<longrightarrow> \<not> related c c2)) (map summary bs) \<and>
      clearAfter (map summary bs)"
    using Cons.prems(2) unfolding sm by simp
  then have ca: "clearAfter (map summary bs)" by simp
  have ih: "independent (concat (map snd bs))" using Cons.IH [OF oks ca] .
  have ib: "independent b" using ok by (rule blockOk_independent)
  have ub: "under c b" using ok by (simp add: blockOk_def)
  have "apart b b2" if m: "b2 \<in> set (map snd bs)" for b2
  proof -
    from m obtain c2 where in_bs: "(c2, b2) \<in> set bs" by auto
    then have u2: "under c2 b2" using oks by (auto simp: list_all_iff blockOk_def)
    have "(c2, blockReads b2, list_ex isIfFalsy b2) \<in> set (map summary bs)"
      using in_bs by (force simp: summary_def)
    then have cond: "list_all (\<lambda>p. \<not> related p c2) (blockReads b) \<and>
        ((list_ex isIfFalsy b \<or> list_ex isIfFalsy b2) \<longrightarrow> \<not> related c c2)"
      using both unfolding list_all_iff by fast
    show ?thesis using apart_blocks [OF ub u2] cond by simp
  qed
  then have "apart b (concat (map snd bs))" using apart_concat by blast
  then show ?case using independent_append [OF ib ih] cb by simp
qed

lemma setDefaults_blocks: "setDefaults = concat (map snd blocks)"
  by (simp add: setDefaults_def blocks_def)

lemma blocks_ok: "list_all blockOk blocks"
  by code_simp

lemma blocks_clear: "clearAfter (map summary blocks)"
  by code_simp

lemma independent_setDefaults: "independent setDefaults"
  unfolding setDefaults_blocks using blocks_ok blocks_clear by (rule blocks_independent)

subsection \<open>What was there is kept\<close>

lemma keeps_refl: "keeps v v"
  by (cases v) simp_all

lemma keeps_trans: "keeps v v' \<Longrightarrow> keeps v' v'' \<Longrightarrow> keeps v v''"
  by (cases v; cases v') simp_all

lemma keeps_defined: "keeps v v' \<Longrightarrow> v \<noteq> Undefined \<Longrightarrow> v' \<noteq> Undefined"
  by (cases v; cases v') simp_all

lemma keeps_truthy: "keeps v v' \<Longrightarrow> truthy v \<Longrightarrow> truthy v'"
  by (cases v; cases v') simp_all

lemma exec_keeps:
  assumes ex: "exec env font s t = Inr t'"
    and g: "getPath t p = Inr v" and d: "v \<noteq> Undefined"
    and f: "isIfFalsy s \<and> target s = p \<longrightarrow> truthy v"
  shows "\<exists>v'. getPath t' p = Inr v' \<and> keeps v v'"
proof -
  from ex obtain cur where cur: "getPath t (target s) = Inr cur"
    unfolding exec_alt by (auto split: sum.splits)
  show ?thesis
  proof (cases "assigns s cur")
    case False
    then have "t' = t" using ex cur unfolding exec_alt by simp
    then show ?thesis using g keeps_refl by auto
  next
    case True
    then obtain x where w: "setPath t (target s) x = Inr t'"
      using ex cur unfolding exec_alt by (auto split: sum.splits)
    have notobj: "\<And>es. cur \<noteq> Obj es" using True assigns_not_Obj by auto
    show ?thesis
    proof (cases "related p (target s)")
      case False
      then show ?thesis using getPath_setPath_other [OF w False] g keeps_refl by auto
    next
      case True
      then consider (below) r where "target s = p @ r" "r \<noteq> []"
        | (above) r where "p = target s @ r" "r \<noteq> []"
        | (same) "p = target s"
        using related_cases [of p "target s"] by (metis append_Nil2)
      then show ?thesis
      proof cases
        case below
        from setPath_through_before [of t p r x t'] w below
        obtain es where "getPath t p = Inr (Obj es)" by auto
        with g have v: "v = Obj es" by simp
        from setPath_through_after [of t p r x t'] w below
        obtain es' where "getPath t' p = Inr (Obj es')" by auto
        then show ?thesis using v by simp
      next
        case above
        have "getPath t p = Inl TypeError \<or> getPath t p = Inr Undefined"
          using getPath_below [OF cur notobj above(2)] above(1) by simp
        with g d show ?thesis by auto
      next
        case same
        with g cur have "cur = v" by simp
        with \<open>assigns s cur\<close> d f same show ?thesis by (cases s) auto
      qed
    qed
  qed
qed

lemma execAll_keeps:
  "execAll env font ss t = Inr t' \<Longrightarrow> getPath t p = Inr v \<Longrightarrow> v \<noteq> Undefined \<Longrightarrow>
   (\<forall>s\<in>set ss. isIfFalsy s \<and> target s = p \<longrightarrow> truthy v) \<Longrightarrow>
   \<exists>v'. getPath t' p = Inr v' \<and> keeps v v'"
proof (induction ss arbitrary: t v)
  case Nil
  then show ?case using keeps_refl by auto
next
  case (Cons s ss)
  from Cons.prems(1) obtain t1 where t1: "exec env font s t = Inr t1"
      "execAll env font ss t1 = Inr t'"
    by (auto split: sum.splits)
  from exec_keeps [OF t1(1) Cons.prems(2,3)] Cons.prems(4)
  obtain v1 where v1: "getPath t1 p = Inr v1" "keeps v v1" by auto
  have d1: "v1 \<noteq> Undefined" using keeps_defined [OF v1(2) Cons.prems(3)] .
  have f1: "\<forall>s\<in>set ss. isIfFalsy s \<and> target s = p \<longrightarrow> truthy v1"
    using Cons.prems(4) keeps_truthy [OF v1(2)] by auto
  from Cons.IH [OF t1(2) v1(1) d1 f1] obtain v' where "getPath t' p = Inr v'" "keeps v1 v'"
    by blast
  then show ?case using keeps_trans [OF v1(2)] by blast
qed

lemma blocks_falsy: "list_all (\<lambda>cb. list_all (\<lambda>s. \<not> isIfFalsy s \<or> target s = [''scrollbar'']) (snd cb)) blocks"
  by code_simp

lemma setDefaults_falsy: "s \<in> set setDefaults \<Longrightarrow> isIfFalsy s \<Longrightarrow> target s = [''scrollbar'']"
  using blocks_falsy unfolding setDefaults_blocks list_all_iff by auto

lemma fill_example: "isOk (execAll (exEnv add) exFont setDefaults exTheme)"
  by code_simp

text \<open>
  Claim C7. When the fill pass returns, every field that was there before it is kept: a
  field holding a string, a number or a boolean holds the same value after the pass, and a
  field holding an object still holds an object (no default overwrites a field that is set;
  for the scrollbar, whose test is \<open>!this._theme.scrollbar\<close>, a field that is set holds an
  object, hence a truthy value); and running the pass again on the filled theme returns
  the same theme, so that filling twice is filling once.
\<close>

theorem setDefaults_fill:
  assumes "execAll env font setDefaults theme = Inr filled"
  shows "(\<forall>p v. getPath theme p = Inr v \<and> v \<noteq> Undefined \<and> (p = [''scrollbar''] \<longrightarrow> truthy v) \<longrightarrow>
            (\<exists>v'. getPath filled p = Inr v' \<and> keeps v v')) \<and>
         execAll env font setDefaults filled = Inr filled"
proof (intro conjI allI impI)
  fix p v
  assume a: "getPath theme p = Inr v \<and> v \<noteq> Undefined \<and> (p = [''scrollbar''] \<longrightarrow> truthy v)"
  have "\<forall>s\<in>set setDefaults. isIfFalsy s \<and> target s = p \<longrightarrow> truthy v"
    using a setDefaults_falsy by auto
  then show "\<exists>v'. getPath filled p = Inr v' \<and> keeps v v'"
    using execAll_keeps [OF assms] a by blast
next
  show "execAll env font setDefaults filled = Inr filled"
    using independent_setDefaults assms by (rule execAll_idem)
qed

theorem setDefaults_fill_witness:
  "\<forall>add. \<exists>filled. execAll (exEnv add) exFont setDefaults exTheme = Inr filled \<and>
     getPath filled [''components'', ''button'', ''default'', ''bg''] = Inr (Str ''red'') \<and>
     execAll (exEnv add) exFont setDefaults filled = Inr filled"
proof
  fix add
  from fill_example [of add]
  obtain filled where f: "execAll (exEnv add) exFont setDefaults exTheme = Inr filled"
    by (cases "execAll (exEnv add) exFont setDefaults exTheme") auto
  have g: "getPath exTheme [''components'', ''button'', ''default'', ''bg''] = Inr (Str ''red'')"
    by code_simp
  from setDefaults_fill [OF f] g
  obtain v' where "getPath filled [''components'', ''button'', ''default'', ''bg''] = Inr v'"
      "keeps (Str ''red'') v'"
    by fastforce
  then have "getPath filled [''components'', ''button'', ''default'', ''bg''] = Inr (Str ''red'')"
    by simp
  with f setDefaults_fill [OF f]
  show "\<exists>filled. execAll (exEnv add) exFont setDefaults exTheme = Inr filled \<and>
     getPath filled [''components'', ''button'', ''default'', ''bg''] = Inr (Str ''red'') \<and>
     execAll (exEnv add) exFont setDefaults filled = Inr filled"
    by blast
qed

subsection \<open>The names \<open>set\<close> falls back to\<close>







end
